theory Spec2Isabelle
  imports Main
begin

section \<open>JavaScript values read by the client\<close>

text \<open>
  The client never computes with coordinates or with the records of a place: it stores
  them and hands them to the map. A coordinate pair is kept as a pair of integers
  (fixed-point degrees), a point of interest as its name, its type and its position.
\<close>

type_synonym latlng = "int \<times> int"
type_synonym poi = "string \<times> string \<times> latlng"

text \<open>
  A field of a parsed JSON object is \<open>None\<close> when the object does not have it
  (\<open>undefined\<close>). A string is truthy when it is not empty, a boolean when it is
  \<open>true\<close>; \<open>v || ''\<close> and \<open>v || false\<close> replace a falsy value by the default.
\<close>

definition truthy_str :: "string option \<Rightarrow> bool" where
  "truthy_str v = (case v of None \<Rightarrow> False | Some s \<Rightarrow> s \<noteq> [])"

definition truthy_bool :: "bool option \<Rightarrow> bool" where
  "truthy_bool v = (case v of None \<Rightarrow> False | Some b \<Rightarrow> b)"

definition or_empty :: "string option \<Rightarrow> string" where
  "or_empty v = (case v of None \<Rightarrow> [] | Some s \<Rightarrow> s)"

definition or_false :: "bool option \<Rightarrow> bool" where
  "or_false v = (case v of None \<Rightarrow> False | Some b \<Rightarrow> b)"

section \<open>Session state (form module)\<close>

text \<open>
  The value that a route response carries as its \<open>polyline_coords\<close>, when it is
  truthy: an array of coordinates, or any other truthy value (kept as its JSON text).
  The chat stream tests the field for truthiness only, the form module also with
  \<open>Array.isArray\<close>; the route is stored before that second test.
\<close>

datatype coords_value = CoordArray "latlng list" | NotArray string

text \<open>
  The three module variables \<open>currentRoute\<close>, \<open>currentPlaces\<close> and
  \<open>currentFeatures\<close>; \<open>null\<close> is \<open>None\<close>. A route's \<open>polyline_coords\<close> is
  \<open>None\<close> when the response did not carry the field, or carried a falsy value. The
  radius of a cached result is the slider's value, a string.
\<close>

record route =
  polyline_coords :: "coords_value option"
  distance_text :: string
  duration_text :: string
  sampled_points :: "latlng list option"

record cached =
  data :: "poi list"
  radius :: string

record session =
  currentRoute :: "route option"
  currentPlaces :: "cached option"
  currentFeatures :: "cached option"

section \<open>The chat stream (api.js, streamChatMessage)\<close>

subsection \<open>Messages, page elements, effects\<close>

text \<open>
  The fields of a decoded message that \<open>processStream\<close> reads, with the types the
  backend gives them.
\<close>

record waypoint_data =
  display_name :: "string option"

record sse_data =
  status :: "string option"
  message :: "string option"
  requires_ui_update :: "bool option"
  show_places :: "bool option"
  show_features :: "bool option"
  waypoint :: "waypoint_data option"
  chunk :: "string option"
  complete :: "bool option"
  error :: "string option"

text \<open>
  The elements of the page that \<open>processStream\<close> touches. Where the code tests that
  \<open>getElementById\<close> found the element, the field is an option (\<open>None\<close>: no such
  element); the two radius sliders are read without a test, as everywhere in the client,
  and are the sliders of \<open>index.html\<close>. The waypoint container holds, for each waypoint
  entry appended to it, the display name that was pasted into the markup of the entry
  (the text between the quotes of the input's \<open>value\<close> attribute, as written).
\<close>

record page =
  show_places_checked :: "bool option"
  places_radius :: string
  show_features_checked :: "bool option"
  features_radius :: string
  generate_route_btn :: bool
  waypoints_container :: "string list option"

text \<open>
  What one run of \<open>streamChatMessage\<close> does to the outside, in order: the three
  callbacks, the calls into the form module, the synthetic click, the cancellation of
  the reader and the error log of the \<open>catch\<close> around \<open>JSON.parse\<close>.
\<close>

datatype effect =
    OnChunk string
  | OnComplete string bool
  | OnError string
  | ChangeEvent string
  | GetPlaces coords_value bool
  | GetNaturalFeatures coords_value bool
  | ClickGenerateRoute
  | WaypointAdded string
  | ContainerMissing
  | ReaderCancel
  | ParseErrorLogged string

text \<open>The variables of the closure: the buffer, the response so far, the flag; and the page.\<close>

record decoder =
  buffer :: string
  fullResponse :: string
  requiresUpdate :: bool
  page :: page

subsection \<open>Splitting the buffer\<close>

text \<open>
  \<open>buffer.split('\n\n')\<close>: the pieces between the occurrences of the separator, found
  from the left and not overlapping; a string without the separator is its own single piece.
\<close>

fun split_nn :: "string \<Rightarrow> string list" where
  "split_nn (a # b # cs) =
     (if a = CHR 0x0A \<and> b = CHR 0x0A then [] # split_nn cs
      else (case split_nn (b # cs) of p # ps \<Rightarrow> (a # p) # ps | [] \<Rightarrow> [[a]]))"
| "split_nn cs = [cs]"

subsection \<open>One decoded message\<close>

text \<open>The four status events set the response and the flag from the message first.\<close>

definition fromEvent :: "decoder \<Rightarrow> sse_data \<Rightarrow> decoder" where
  "fromEvent d m =
     d\<lparr>fullResponse := or_empty (message m),
       requiresUpdate := or_false (requires_ui_update m)\<rparr>"

definition finish :: "decoder \<Rightarrow> effect list" where
  "finish d = [OnComplete (fullResponse d) (requiresUpdate d), ReaderCancel]"

definition clickGenerate :: "page \<Rightarrow> effect list" where
  "clickGenerate pg = (if generate_route_btn pg then [ClickGenerateRoute] else [])"

definition routeGenerated :: "decoder \<Rightarrow> sse_data \<Rightarrow> decoder \<times> effect list \<times> bool" where
  "routeGenerated d m = (let d1 = fromEvent d m in (d1, finish d1, True))"

definition placesRequested ::
  "session \<Rightarrow> decoder \<Rightarrow> sse_data \<Rightarrow> decoder \<times> effect list \<times> bool" where
  "placesRequested s d m =
     (let d1 = fromEvent d m in
      if truthy_bool (show_places m) then
        (let (pg, e1) =
               (case show_places_checked (page d1) of
                  Some False \<Rightarrow>
                    ((page d1)\<lparr>show_places_checked := Some True\<rparr>, [ChangeEvent ''show-places''])
                | _ \<Rightarrow> (page d1, []));
             d2 = d1\<lparr>page := pg\<rparr>;
             e2 =
               (case currentRoute s of
                  None \<Rightarrow> clickGenerate pg
                | Some r \<Rightarrow>
                    (case polyline_coords r of
                       None \<Rightarrow> clickGenerate pg
                     | Some coords \<Rightarrow>
                         (let placesRadiusKm = places_radius pg;
                              forceRefresh =
                                (case currentPlaces s of
                                   None \<Rightarrow> True
                                 | Some c \<Rightarrow> radius c \<noteq> placesRadiusKm)
                          in [GetPlaces coords forceRefresh])))
         in (d2, e1 @ e2 @ finish d2, True))
      else (d1, finish d1, True))"

definition featuresRequested ::
  "session \<Rightarrow> decoder \<Rightarrow> sse_data \<Rightarrow> decoder \<times> effect list \<times> bool" where
  "featuresRequested s d m =
     (let d1 = fromEvent d m in
      if truthy_bool (show_features m) then
        (let (pg, e1) =
               (case show_features_checked (page d1) of
                  Some False \<Rightarrow>
                    ((page d1)\<lparr>show_features_checked := Some True\<rparr>,
                     [ChangeEvent ''show-features''])
                | _ \<Rightarrow> (page d1, []));
             d2 = d1\<lparr>page := pg\<rparr>;
             e2 =
               (case currentRoute s of
                  None \<Rightarrow> clickGenerate pg
                | Some r \<Rightarrow>
                    (case polyline_coords r of
                       None \<Rightarrow> clickGenerate pg
                     | Some coords \<Rightarrow>
                         (let featuresRadiusKm = features_radius pg;
                              forceRefresh =
                                (case currentFeatures s of
                                   None \<Rightarrow> True
                                 | Some c \<Rightarrow> radius c \<noteq> featuresRadiusKm)
                          in [GetNaturalFeatures coords forceRefresh])))
         in (d2, e1 @ e2 @ finish d2, True))
      else (d1, finish d1, True))"

text \<open>
  The entry of a new waypoint is built from markup into which the display name is pasted
  as it is. The model keeps the pasted name and takes the markup to parse into the input
  and its remove button, as it does for a name without markup characters of its own, so
  that the listener is attached and the handler goes on to the click.
\<close>

definition waypointAdded :: "decoder \<Rightarrow> sse_data \<Rightarrow> decoder \<times> effect list \<times> bool" where
  "waypointAdded d m =
     (let d1 = fromEvent d m in
      case waypoint m of
        None \<Rightarrow> (d1, finish d1, True)
      | Some w \<Rightarrow>
          (case waypoints_container (page d1) of
             None \<Rightarrow> (d1, ContainerMissing # finish d1, True)
           | Some ws \<Rightarrow>
               (let v = or_empty (display_name w);
                    pg = (page d1)\<lparr>waypoints_container := Some (ws @ [v])\<rparr>;
                    d2 = d1\<lparr>page := pg\<rparr>
                in (d2, WaypointAdded v # clickGenerate pg @ finish d2, True))))"

text \<open>
  The plain streaming fields, tested one after the other when no status matched: a
  chunk is appended and reported, a completion only stores the flag, an error is
  reported and ends the stream.
\<close>

definition streamFields :: "decoder \<Rightarrow> sse_data \<Rightarrow> decoder \<times> effect list \<times> bool" where
  "streamFields d m =
     (let (d1, e1) =
            (if truthy_str (chunk m)
             then (d\<lparr>fullResponse := fullResponse d @ or_empty (chunk m)\<rparr>,
                   [OnChunk (or_empty (chunk m))])
             else (d, []));
          d2 = (if truthy_bool (complete m)
                then d1\<lparr>requiresUpdate := or_false (requires_ui_update m)\<rparr> else d1)
      in if truthy_str (error m)
         then (d2, e1 @ [OnError (or_empty (error m)), ReaderCancel], True)
         else (d2, e1, False))"

definition handleData ::
  "session \<Rightarrow> decoder \<Rightarrow> sse_data \<Rightarrow> decoder \<times> effect list \<times> bool" where
  "handleData s d m =
     (if status m = Some ''route_generated'' then routeGenerated d m
      else if status m = Some ''places_requested'' then placesRequested s d m
      else if status m = Some ''features_requested'' then featuresRequested s d m
      else if status m = Some ''waypoint_added'' then waypointAdded d m
      else streamFields d m)"

subsection \<open>The loop over the lines and over the fragments\<close>

text \<open>
  \<open>JSON_parse\<close> stands for \<open>JSON.parse\<close> followed by the reading of the fields:
  \<open>None\<close> when that throws (text that is not JSON, or the value \<open>null\<close>), in which
  case the \<open>catch\<close> logs the line and the loop goes on. The last component of a result
  says that the callback returned without asking for the next read.
\<close>

definition handleLine ::
  "(string \<Rightarrow> sse_data option) \<Rightarrow> session \<Rightarrow> decoder \<Rightarrow> string \<Rightarrow>
   decoder \<times> effect list \<times> bool" where
  "handleLine JSON_parse s d line =
     (if take 6 line = ''data: '' then
        (case JSON_parse (drop 6 line) of
           None \<Rightarrow> (d, [ParseErrorLogged line], False)
         | Some m \<Rightarrow> handleData s d m)
      else (d, [], False))"

fun handleLines ::
  "(string \<Rightarrow> sse_data option) \<Rightarrow> session \<Rightarrow> decoder \<Rightarrow> string list \<Rightarrow>
   decoder \<times> effect list \<times> bool" where
  "handleLines JSON_parse s d [] = (d, [], False)"
| "handleLines JSON_parse s d (line # lines) =
     (case handleLine JSON_parse s d line of
        (d1, e1, True) \<Rightarrow> (d1, e1, True)
      | (d1, e1, False) \<Rightarrow>
          (case handleLines JSON_parse s d1 lines of (d2, e2, r) \<Rightarrow> (d2, e1 @ e2, r)))"

text \<open>
  The end of the source: \<open>done\<close> (\<open>None\<close>) completes with the response and the flag
  gathered so far; a rejected read (\<open>Some\<close> of its message) reports the error. A request
  that fails before the first read is the stream without fragments that ends in its error.
\<close>

definition streamEnd :: "decoder \<Rightarrow> string option \<Rightarrow> effect list" where
  "streamEnd d ending =
     (case ending of
        None \<Rightarrow> [OnComplete (fullResponse d) (requiresUpdate d)]
      | Some e \<Rightarrow> [OnError e])"

fun processStream ::
  "(string \<Rightarrow> sse_data option) \<Rightarrow> session \<Rightarrow> decoder \<Rightarrow> string list \<Rightarrow> string option \<Rightarrow>
   effect list" where
  "processStream JSON_parse s d [] ending = streamEnd d ending"
| "processStream JSON_parse s d (value # rest) ending =
     (let lines = split_nn (buffer d @ value);
          d0 = d\<lparr>buffer := last lines\<rparr>
      in case handleLines JSON_parse s d0 (butlast lines) of
           (d1, e1, True) \<Rightarrow> e1
         | (d1, e1, False) \<Rightarrow> e1 @ processStream JSON_parse s d1 rest ending)"

text \<open>The closure starts with an empty buffer, an empty response and the flag off.\<close>

definition initial :: "page \<Rightarrow> decoder" where
  "initial pg = \<lparr>buffer = [], fullResponse = [], requiresUpdate = False, page = pg\<rparr>"

definition streamChatMessage ::
  "(string \<Rightarrow> sse_data option) \<Rightarrow> session \<Rightarrow> page \<Rightarrow> string list \<Rightarrow> string option \<Rightarrow>
   effect list" where
  "streamChatMessage JSON_parse s pg fragments ending =
     processStream JSON_parse s (initial pg) fragments ending"

subsection \<open>Messages on the wire\<close>

text \<open>
  \<open>has_nn\<close> says that a text contains the separator. A segment is a text that can
  stand between two separators and come back from the split unchanged: it does not
  contain the separator and does not end in a newline (which would join the separator
  that follows). A one-line \<open>data: {...}\<close> message is a segment. \<open>sse\<close> puts the
  separator after each message, as the server does.
\<close>

fun has_nn :: "string \<Rightarrow> bool" where
  "has_nn (a # b # cs) = ((a = CHR 0x0A \<and> b = CHR 0x0A) \<or> has_nn (b # cs))"
| "has_nn cs = False"

definition segment :: "string \<Rightarrow> bool" where
  "segment m = (\<not> has_nn m \<and> (m = [] \<or> last m \<noteq> CHR 0x0A))"

definition sse :: "string list \<Rightarrow> string" where
  "sse msgs = concat (map (\<lambda>m. m @ [CHR 0x0A, CHR 0x0A]) msgs)"

text \<open>
  The events of a list of messages taken one by one, in order, followed by the end of
  the source when no message ended the stream: the reference against which the
  buffered loop is compared.
\<close>

definition decodeMessages ::
  "(string \<Rightarrow> sse_data option) \<Rightarrow> session \<Rightarrow> decoder \<Rightarrow> string list \<Rightarrow> string option \<Rightarrow>
   effect list" where
  "decodeMessages JSON_parse s d msgs ending =
     (case handleLines JSON_parse s d msgs of
        (d1, e1, True) \<Rightarrow> e1
      | (d1, e1, False) \<Rightarrow> e1 @ streamEnd d1 ending)"

subsection \<open>Vocabulary of the properties\<close>


fun isEvent :: "effect \<Rightarrow> bool" where
  "isEvent (OnChunk c) = True"
| "isEvent (OnComplete t f) = True"
| "isEvent (OnError e) = True"
| "isEvent e = False"

definition events :: "effect list \<Rightarrow> effect list" where
  "events es = filter isEvent es"





text \<open>
  The four status kinds that the loop knows; a plain message has none of them and no
  error. \<open>segmentsOf\<close> are the complete segments of a stream, \<open>decoded\<close> the messages
  that parse among a list of segments.
\<close>

definition terminalStatus :: "sse_data \<Rightarrow> bool" where
  "terminalStatus m =
     (status m = Some ''route_generated'' \<or> status m = Some ''places_requested'' \<or>
      status m = Some ''features_requested'' \<or> status m = Some ''waypoint_added'')"

definition plain :: "sse_data \<Rightarrow> bool" where
  "plain m = (\<not> terminalStatus m \<and> \<not> truthy_str (error m))"

definition segmentsOf :: "string list \<Rightarrow> string list" where
  "segmentsOf fragments = butlast (split_nn (concat fragments))"

definition decoded :: "(string \<Rightarrow> sse_data option) \<Rightarrow> string list \<Rightarrow> sse_data list" where
  "decoded JSON_parse msgs =
     List.map_filter (\<lambda>line. if take 6 line = ''data: '' then JSON_parse (drop 6 line) else None) msgs"

text \<open>
  The payloads of the chunk messages, and the flag of the last completion message
  (\<open>f0\<close> when there is none). The code tests both fields for truthiness: a chunk
  message is one whose \<open>chunk\<close> is a non-empty string, a completion message one
  whose \<open>complete\<close> is \<open>true\<close>.
\<close>

definition chunksOf :: "sse_data list \<Rightarrow> string list" where
  "chunksOf ms = map (\<lambda>m. or_empty (chunk m)) (filter (\<lambda>m. truthy_str (chunk m)) ms)"

definition flagFrom :: "bool \<Rightarrow> sse_data list \<Rightarrow> bool" where
  "flagFrom f0 ms =
     (let cs = filter (\<lambda>m. truthy_bool (complete m)) ms
      in if cs = [] then f0 else or_false (requires_ui_update (last cs)))"

text \<open>
  The same two notions read from the wording of the specification: every message that
  carries a \<open>chunk\<close> field counts as a chunk message, every message that carries a
  \<open>complete\<close> field as a completion message, and the events at the natural end of
  a stream are the chunks followed by one completion.
\<close>

definition chunksAsStated :: "sse_data list \<Rightarrow> string list" where
  "chunksAsStated ms = map (\<lambda>m. or_empty (chunk m)) (filter (\<lambda>m. chunk m \<noteq> None) ms)"

definition flagAsStated :: "sse_data list \<Rightarrow> bool" where
  "flagAsStated ms =
     (let cs = filter (\<lambda>m. complete m \<noteq> None) ms
      in if cs = [] then False else or_false (requires_ui_update (last cs)))"

definition eventsAsStated :: "sse_data list \<Rightarrow> effect list" where
  "eventsAsStated ms =
     map OnChunk (chunksAsStated ms) @ [OnComplete (concat (chunksAsStated ms)) (flagAsStated ms)]"

text \<open>
  The coordinates of the current route, when there is a route and its
  \<open>polyline_coords\<close> is truthy; a checkbox after it was switched on, when the page
  has it.
\<close>

definition routeCoords :: "session \<Rightarrow> coords_value option" where
  "routeCoords s = (case currentRoute s of None \<Rightarrow> None | Some r \<Rightarrow> polyline_coords r)"

definition enable :: "bool option \<Rightarrow> bool option" where
  "enable c = (case c of None \<Rightarrow> None | Some b \<Rightarrow> Some True)"

section \<open>The form module\<close>

subsection \<open>The backend and the form\<close>

text \<open>
  The request that \<open>generateRoute\<close> builds: the geocoded ends and waypoints, and the
  sampling options when sampling is switched on (the interval, or else the method named in
  the form with the every-nth value).
\<close>

datatype sampling = NoSampling | Interval string | EveryNth string string

record route_request =
  origin :: latlng
  destination :: latlng
  waypoints :: "latlng list"
  sampling :: sampling

text \<open>
  What the backend answers, as the four request functions of the API module deliver it:
  \<open>geocodeAddress\<close> without a display element gives coordinates or \<open>null\<close>; the other
  three return their result or throw an error with a message (\<open>Inl\<close>).
\<close>

record remote =
  geocode :: "string \<Rightarrow> latlng option"
  routeRequest :: "route_request \<Rightarrow> string + route"
  placesRequest :: "coords_value \<Rightarrow> string \<Rightarrow> string + poi list"
  featuresRequest :: "coords_value \<Rightarrow> string \<Rightarrow> string + poi list"

text \<open>
  The values that the form module reads from the page, under the names of the local
  constants of \<open>generateRoute\<close>: the inputs (the waypoint inputs that are not blank), the
  two checkboxes, the texts of the coordinate displays, the sampling controls and the two
  radius sliders. The last field is not read by the module: it says whether the two
  number inputs of the sampling options meet the bounds that \<open>index.html\<close> gives
  them (an empty one does), which the browser checks before it submits the form.
\<close>

record form =
  originInput :: string
  destinationInput :: string
  waypointInputs :: "string list"
  showPlaces :: bool
  showFeatures :: bool
  currentOrigin :: string
  currentDestination :: string
  sampleRoute :: bool
  sampleMethod :: string
  intervalKm :: string
  everyNth :: string
  placesRadiusKm :: string
  featuresRadiusKm :: string
  numberInputsValid :: bool

text \<open>What the form module does to the map, the sidebar and the backend, in order.\<close>

datatype form_effect =
    ShowLoading
  | HideLoading
  | ClearMapLayers
  | RouteRequested route_request
  | ConversationStateUpdated route
  | DisplayRoute route
  | UpdateRouteInfo string string
  | UpdateSampledInfo "nat option"
  | SampledMarkers "latlng list"
  | PlacesRequested coords_value string
  | DisplayPlaces "poi list"
  | UpdatePlacesList "poi list"
  | PlacesDataUpdated "poi list"
  | PlacesListError string
  | FeaturesRequested coords_value string
  | DisplayFeatures "poi list"
  | UpdateFeaturesList "poi list"
  | FeaturesDataUpdated "poi list"
  | FeaturesListError string
  | ShowResults
  | Alert string

subsection \<open>Cached places and features\<close>

definition resetCachedData :: "session \<Rightarrow> session" where
  "resetCachedData s = s\<lparr>currentPlaces := None, currentFeatures := None\<rparr>"

text \<open>
  The test at the head of \<open>getPlaces\<close> and \<open>getNaturalFeatures\<close>: the cached result, when
  no refresh is forced, one exists and its radius is the selected one.
\<close>

definition reusable :: "cached option \<Rightarrow> string \<Rightarrow> bool \<Rightarrow> cached option" where
  "reusable current radiusKm forceRefresh =
     (case current of
        None \<Rightarrow> None
      | Some c \<Rightarrow> if \<not> forceRefresh \<and> radius c = radiusKm then Some c else None)"

text \<open>
  A failed request is caught inside the function: the error is shown in the list and
  nothing is stored. The coordinates are handed to the backend as they come: from
  \<open>generateRoute\<close> an array, from the chat stream whatever truthy value the current
  route holds.
\<close>

definition getPlaces ::
  "remote \<Rightarrow> form \<Rightarrow> session \<Rightarrow> coords_value \<Rightarrow> bool \<Rightarrow> session \<times> form_effect list" where
  "getPlaces w f s polylineCoords forceRefresh =
     (case reusable (currentPlaces s) (placesRadiusKm f) forceRefresh of
        Some c \<Rightarrow> (s, [DisplayPlaces (data c), UpdatePlacesList (data c)])
      | None \<Rightarrow>
          (case placesRequest w polylineCoords (placesRadiusKm f) of
             Inl err \<Rightarrow>
               (s, [PlacesRequested polylineCoords (placesRadiusKm f), PlacesListError err])
           | Inr places \<Rightarrow>
               (s\<lparr>currentPlaces := Some \<lparr>data = places, radius = placesRadiusKm f\<rparr>\<rparr>,
                [PlacesRequested polylineCoords (placesRadiusKm f), DisplayPlaces places,
                 UpdatePlacesList places, PlacesDataUpdated places])))"

definition getNaturalFeatures ::
  "remote \<Rightarrow> form \<Rightarrow> session \<Rightarrow> coords_value \<Rightarrow> bool \<Rightarrow> session \<times> form_effect list" where
  "getNaturalFeatures w f s polylineCoords forceRefresh =
     (case reusable (currentFeatures s) (featuresRadiusKm f) forceRefresh of
        Some c \<Rightarrow> (s, [DisplayFeatures (data c), UpdateFeaturesList (data c)])
      | None \<Rightarrow>
          (case featuresRequest w polylineCoords (featuresRadiusKm f) of
             Inl err \<Rightarrow>
               (s, [FeaturesRequested polylineCoords (featuresRadiusKm f), FeaturesListError err])
           | Inr features \<Rightarrow>
               (s\<lparr>currentFeatures := Some \<lparr>data = features, radius = featuresRadiusKm f\<rparr>\<rparr>,
                [FeaturesRequested polylineCoords (featuresRadiusKm f), DisplayFeatures features,
                 UpdateFeaturesList features, FeaturesDataUpdated features])))"

subsection \<open>Generating a route\<close>

text \<open>
  The current route is reused when its coordinates are an array, both coordinate
  displays are filled and the sampling checkbox agrees with the route having sampled
  points.
\<close>

definition reusableRoute :: "form \<Rightarrow> session \<Rightarrow> (route \<times> latlng list) option" where
  "reusableRoute f s =
     (case currentRoute s of
        None \<Rightarrow> None
      | Some r \<Rightarrow>
          (case polyline_coords r of
             Some (CoordArray coords) \<Rightarrow>
               if currentOrigin f \<noteq> [] \<and> currentDestination f \<noteq> [] \<and>
                  sampleRoute f = (sampled_points r \<noteq> None)
               then Some (r, coords) else None
           | _ \<Rightarrow> None))"

definition requestData :: "form \<Rightarrow> latlng \<Rightarrow> latlng \<Rightarrow> latlng list \<Rightarrow> route_request" where
  "requestData f orig dest wps =
     \<lparr>origin = orig, destination = dest, waypoints = wps,
      sampling =
        (if sampleRoute f then
           (if sampleMethod f = ''interval'' then Interval (intervalKm f)
            else EveryNth (sampleMethod f) (everyNth f))
         else NoSampling)\<rparr>"

text \<open>
  The branch that fetches a new route: the cached results are reset first, the ends
  are geocoded, the route is requested and stored, and only then checked for an array of
  coordinates.
  The last component is the error thrown, or the route with its coordinates.
\<close>

definition fetchRoute ::
  "remote \<Rightarrow> form \<Rightarrow> session \<Rightarrow> session \<times> form_effect list \<times> (string + route \<times> latlng list)" where
  "fetchRoute w f s =
     (let s1 = resetCachedData s;
          orig = geocode w (originInput f);
          dest = geocode w (destinationInput f)
      in case orig of
           None \<Rightarrow> (s1, [], Inl ''Failed to geocode origin or destination'')
         | Some orig' \<Rightarrow>
             (case dest of
                None \<Rightarrow> (s1, [], Inl ''Failed to geocode origin or destination'')
              | Some dest' \<Rightarrow>
                  (let wps = List.map_filter (geocode w) (waypointInputs f);
                       req = requestData f orig' dest' wps
                   in case routeRequest w req of
                        Inl err \<Rightarrow> (s1, [RouteRequested req], Inl err)
                      | Inr routeData \<Rightarrow>
                          (let s2 = s1\<lparr>currentRoute := Some routeData\<rparr>
                           in case polyline_coords routeData of
                                Some (CoordArray coords) \<Rightarrow>
                                  (s2, [RouteRequested req, ConversationStateUpdated routeData],
                                   Inr (routeData, coords))
                              | _ \<Rightarrow>
                                  (s2, [RouteRequested req],
                                   Inl ''Invalid route data: missing polyline coordinates'')))))"

definition displayRouteData :: "route \<Rightarrow> form_effect list" where
  "displayRouteData routeData =
     [DisplayRoute routeData, UpdateRouteInfo (distance_text routeData) (duration_text routeData)] @
     (case sampled_points routeData of
        Some points \<Rightarrow> [UpdateSampledInfo (Some (length points)), SampledMarkers points]
      | None \<Rightarrow> [UpdateSampledInfo None])"

text \<open>
  The whole flow, run to its end; the error of the fetching branch is caught and
  alerted, and the loading indicator is hidden in both cases.
\<close>

definition generateRoute :: "remote \<Rightarrow> form \<Rightarrow> session \<Rightarrow> session \<times> form_effect list" where
  "generateRoute w f s =
     (let (s1, e1, found) =
            (case reusableRoute f s of
               Some r \<Rightarrow> (s, [], Inr r)
             | None \<Rightarrow> fetchRoute w f s)
      in case found of
           Inl err \<Rightarrow> (s1, [ShowLoading, ClearMapLayers] @ e1 @ [Alert err, HideLoading])
         | Inr (routeData, polylineCoords) \<Rightarrow>
             (let (s2, e2) =
                    (if showPlaces f then getPlaces w f s1 (CoordArray polylineCoords) False
                     else (s1, []));
                  (s3, e3) =
                    (if showFeatures f
                     then getNaturalFeatures w f s2 (CoordArray polylineCoords) False
                     else (s2, []))
              in (s3, [ShowLoading, ClearMapLayers] @ e1 @ displayRouteData routeData @ e2 @ e3 @
                      [ShowResults, HideLoading])))"

subsection \<open>Counting requests\<close>

fun isPlacesRequest :: "form_effect \<Rightarrow> bool" where
  "isPlacesRequest (PlacesRequested c r) = True"
| "isPlacesRequest e = False"

fun isFeaturesRequest :: "form_effect \<Rightarrow> bool" where
  "isFeaturesRequest (FeaturesRequested c r) = True"
| "isFeaturesRequest e = False"

definition succeeded :: "string + 'a \<Rightarrow> bool" where
  "succeeded res = (case res of Inl err \<Rightarrow> False | Inr v \<Rightarrow> True)"

text \<open>
  Repeated invocations without a forced refresh, the form (and so the radius) fixed; each
  invocation has its own coordinates and its own backend answers.
\<close>

fun getPlacesRepeated ::
  "form \<Rightarrow> session \<Rightarrow> (remote \<times> coords_value) list \<Rightarrow> session \<times> form_effect list" where
  "getPlacesRepeated f s [] = (s, [])"
| "getPlacesRepeated f s ((w, coords) # calls) =
     (case getPlaces w f s coords False of
        (s1, e1) \<Rightarrow> (case getPlacesRepeated f s1 calls of (s2, e2) \<Rightarrow> (s2, e1 @ e2)))"

fun getNaturalFeaturesRepeated ::
  "form \<Rightarrow> session \<Rightarrow> (remote \<times> coords_value) list \<Rightarrow> session \<times> form_effect list" where
  "getNaturalFeaturesRepeated f s [] = (s, [])"
| "getNaturalFeaturesRepeated f s ((w, coords) # calls) =
     (case getNaturalFeatures w f s coords False of
        (s1, e1) \<Rightarrow> (case getNaturalFeaturesRepeated f s1 calls of (s2, e2) \<Rightarrow> (s2, e1 @ e2)))"

section \<open>The chat module\<close>

text \<open>
  The bubble of the pending assistant message and the three callbacks that
  \<open>sendMessage\<close> passes to \<open>streamChatMessage\<close>. The text is the message without the
  typing cursor; \<open>cursor\<close> says whether the cursor is attached.
\<close>

record bubble =
  textContent :: string
  cursor :: bool
  errorClass :: bool

definition onChunk :: "string \<Rightarrow> bubble \<Rightarrow> bubble" where
  "onChunk c b = b\<lparr>textContent := textContent b @ c, cursor := True\<rparr>"

definition onComplete :: "string \<Rightarrow> bubble \<Rightarrow> bubble" where
  "onComplete responseText b = b\<lparr>textContent := responseText, cursor := False\<rparr>"

definition onError :: "string \<Rightarrow> bubble \<Rightarrow> bubble" where
  "onError e b =
     b\<lparr>textContent := ''Sorry, there was an error processing your request. Please try again.'',
       cursor := False, errorClass := True\<rparr>"

text \<open>
  The asynchronous flows that an effect starts; they run after the callback has returned.
  The client is the session, the bubble and the flows started so far.
\<close>

datatype flow =
    GetPlacesFlow coords_value bool
  | GetNaturalFeaturesFlow coords_value bool
  | GenerateRouteFlow
  | CheckForRouteUpdateFlow

record client =
  store :: session
  bubble :: bubble
  flows :: "flow list"

text \<open>
  What each effect of the stream does before the next one: the callbacks change the
  bubble, a completion with the flag starts \<open>checkForRouteUpdate\<close>, the calls into the
  form module start their flows. The click presses the submit button of the route form
  (\<open>index.html\<close>), whose origin and destination inputs are \<open>required\<close> and whose
  two number inputs are bounded: when one of the required inputs is empty or a number
  input is out of its bounds, the browser blocks the submission and nothing runs;
  otherwise the submit handler runs \<open>generateRoute\<close> up to its first \<open>await\<close>, where
  the cached results are reset when the route cannot be reused.
\<close>

definition formValid :: "form \<Rightarrow> bool" where
  "formValid f = (originInput f \<noteq> [] \<and> destinationInput f \<noteq> [] \<and> numberInputsValid f)"

fun deliver :: "form \<Rightarrow> client \<Rightarrow> effect \<Rightarrow> client" where
  "deliver f c (OnChunk t) = c\<lparr>bubble := onChunk t (bubble c)\<rparr>"
| "deliver f c (OnComplete t u) =
     c\<lparr>bubble := onComplete t (bubble c),
       flows := flows c @ (if u then [CheckForRouteUpdateFlow] else [])\<rparr>"
| "deliver f c (OnError e) = c\<lparr>bubble := onError e (bubble c)\<rparr>"
| "deliver f c (GetPlaces coords force) = c\<lparr>flows := flows c @ [GetPlacesFlow coords force]\<rparr>"
| "deliver f c (GetNaturalFeatures coords force) =
     c\<lparr>flows := flows c @ [GetNaturalFeaturesFlow coords force]\<rparr>"
| "deliver f c ClickGenerateRoute =
     (if formValid f then
        c\<lparr>store := (case reusableRoute f (store c) of
                       None \<Rightarrow> resetCachedData (store c)
                     | Some r \<Rightarrow> store c),
          flows := flows c @ [GenerateRouteFlow]\<rparr>
      else c)"
| "deliver f c e = c"

text \<open>
  Traces that end in an error event: only chunks and log entries come before it, and
  at most the cancellation after it.
\<close>

fun isError :: "effect \<Rightarrow> bool" where
  "isError (OnError e) = True"
| "isError e = False"

fun silent :: "effect list \<Rightarrow> bool" where
  "silent [] = True"
| "silent (OnChunk c # es) = silent es"
| "silent (ParseErrorLogged l # es) = silent es"
| "silent (e # es) = False"

fun errorEnding :: "effect list \<Rightarrow> bool" where
  "errorEnding [] = False"
| "errorEnding (OnError x # es) = (es = [] \<or> es = [ReaderCancel])"
| "errorEnding (OnChunk c # es) = errorEnding es"
| "errorEnding (ParseErrorLogged l # es) = errorEnding es"
| "errorEnding (e # es) = False"

definition errorOrNone :: "effect list \<times> bool \<Rightarrow> bool" where
  "errorOrNone h =
     (if snd h then errorEnding (fst h) \<or> \<not> list_ex isError (fst h) else silent (fst h))"

section \<open>Geocoding (api.js, geocodeAddress)\<close>

text \<open>
  The parsed body of the response: \<open>lat\<close> and \<open>lng\<close> are \<open>None\<close> when the body has no
  number there. The network either fails or answers with a status (\<open>ok\<close>) and a body that
  parses or does not.
\<close>

record geo_data =
  lat :: "int option"
  lng :: "int option"
  geo_error :: "string option"

datatype http = NetworkError string | Response bool "string + geo_data"

text \<open>
  The element that displays the result, if the caller names one: its text and whether it
  has the error class. The document maps an id to its element; \<open>getElementById\<close> of an
  id it does not have is \<open>null\<close>, and setting a property of \<open>null\<close> throws.
\<close>

datatype content = NoText | LatLngText int int | ErrorText string

record display =
  shown :: content
  error_style :: bool

datatype 'a promise = Fulfilled 'a | Rejected string

definition typeError :: string where
  "typeError = ''TypeError''"

text \<open>The \<open>catch\<close> block: it writes to the display element as well, without a guard.\<close>

definition catchBlock ::
  "(string \<rightharpoonup> display) \<Rightarrow> string option \<Rightarrow> string \<Rightarrow>
   (string \<rightharpoonup> display) \<times> geo_data option promise" where
  "catchBlock document displayElementId msg =
     (if truthy_str displayElementId then
        (case document (or_empty displayElementId) of
           None \<Rightarrow> (document, Rejected typeError)
         | Some el \<Rightarrow>
             (document(or_empty displayElementId \<mapsto>
                el\<lparr>shown := ErrorText msg, error_style := True\<rparr>),
              Fulfilled None))
      else (document, Fulfilled None))"

definition geocodeAddress ::
  "(string \<Rightarrow> http) \<Rightarrow> (string \<rightharpoonup> display) \<Rightarrow> string \<Rightarrow> string option \<Rightarrow>
   (string \<rightharpoonup> display) \<times> geo_data option promise" where
  "geocodeAddress fetch document address displayElementId =
     (case fetch address of
        NetworkError msg \<Rightarrow> catchBlock document displayElementId msg
      | Response ok body \<Rightarrow>
          (case body of
             Inl msg \<Rightarrow> catchBlock document displayElementId msg
           | Inr d \<Rightarrow>
               if ok then
                 (if truthy_str displayElementId then
                    (case document (or_empty displayElementId) of
                       None \<Rightarrow> catchBlock document displayElementId typeError
                     | Some el \<Rightarrow>
                         (case lat d of
                            None \<Rightarrow> catchBlock document displayElementId typeError
                          | Some la \<Rightarrow>
                              (case lng d of
                                 None \<Rightarrow> catchBlock document displayElementId typeError
                               | Some ln \<Rightarrow>
                                   (document(or_empty displayElementId \<mapsto>
                                      el\<lparr>shown := LatLngText la ln\<rparr>),
                                    Fulfilled (Some d)))))
                  else (document, Fulfilled (Some d)))
               else
                 (if truthy_str displayElementId then
                    (case document (or_empty displayElementId) of
                       None \<Rightarrow> catchBlock document displayElementId typeError
                     | Some el \<Rightarrow>
                         (document(or_empty displayElementId \<mapsto>
                            el\<lparr>shown := ErrorText (case geo_error d of
                                                     None \<Rightarrow> ''undefined'' | Some e \<Rightarrow> e),
                               error_style := True\<rparr>),
                          Fulfilled None))
                  else (document, Fulfilled None))))"

text \<open>
  A named display element exists; the coordinates of a body can be rendered where a
  display element is named.
\<close>

definition displayable :: "(string \<rightharpoonup> display) \<Rightarrow> string option \<Rightarrow> bool" where
  "displayable document displayElementId =
     (if truthy_str displayElementId then document (or_empty displayElementId) \<noteq> None else True)"

definition renders :: "string option \<Rightarrow> geo_data \<Rightarrow> bool" where
  "renders displayElementId d =
     (if truthy_str displayElementId then lat d \<noteq> None \<and> lng d \<noteq> None else True)"

section \<open>Example inputs\<close>

text \<open>
  A record without any field set, a page as \<open>index.html\<close> loads it, the session of
  a fresh page and a session that holds a route with cached results.
\<close>

definition no_fields :: sse_data where
  "no_fields =
     \<lparr>status = None, message = None, requires_ui_update = None, show_places = None,
      show_features = None, waypoint = None, chunk = None, complete = None, error = None\<rparr>"

definition example_page :: page where
  "example_page =
     \<lparr>show_places_checked = Some False, places_radius = ''5'',
      show_features_checked = Some False, features_radius = ''1'',
      generate_route_btn = True, waypoints_container = Some []\<rparr>"

definition empty_session :: session where
  "empty_session = \<lparr>currentRoute = None, currentPlaces = None, currentFeatures = None\<rparr>"

definition example_route :: route where
  "example_route =
     \<lparr>polyline_coords = Some (CoordArray [(48137000, 11575000), (48208000, 16373000)]),
      distance_text = ''434 km'', duration_text = ''4 hours 10 mins'', sampled_points = None\<rparr>"

definition routed_session :: session where
  "routed_session =
     \<lparr>currentRoute = Some example_route,
      currentPlaces = Some \<lparr>data = [], radius = ''3''\<rparr>,
      currentFeatures = Some \<lparr>data = [], radius = ''1''\<rparr>\<rparr>"

text \<open>A parser that knows the messages used in the examples, and nothing else.\<close>

definition stream_parse :: "string \<Rightarrow> sse_data option" where
  \<open>stream_parse body =
     (if body = ''{"chunk":"Hi"}'' then Some (no_fields\<lparr>chunk := Some ''Hi''\<rparr>)
      else if body = ''{"chunk":" there"}'' then Some (no_fields\<lparr>chunk := Some '' there''\<rparr>)
      else if body = ''{"complete":true,"requires_ui_update":false}''
        then Some (no_fields\<lparr>complete := Some True, requires_ui_update := Some False\<rparr>)
      else if body = ''{"complete":true,"requires_ui_update":true}''
        then Some (no_fields\<lparr>complete := Some True, requires_ui_update := Some True\<rparr>)
      else if body = ''{"status":"places_requested","message":"Showing places","show_places":true}''
        then Some (no_fields\<lparr>status := Some ''places_requested'',
               message := Some ''Showing places'', show_places := Some True\<rparr>)
      else if body = ''{"error":"backend failed"}''
        then Some (no_fields\<lparr>error := Some ''backend failed''\<rparr>)
      else if body = ''{"chunk":""}'' then Some (no_fields\<lparr>chunk := Some []\<rparr>)
      else if body = ''{"complete":false,"requires_ui_update":true}''
        then Some (no_fields\<lparr>complete := Some False, requires_ui_update := Some True\<rparr>)
      else None)\<close>

text \<open>
  A filled form, the same form with the origin and destination inputs empty (as the page
  loads them), a backend that answers every request, and one whose searches fail.
\<close>

definition example_form :: form where
  "example_form =
     \<lparr>originInput = ''Munich'', destinationInput = ''Vienna'', waypointInputs = [],
      showPlaces = True, showFeatures = False, currentOrigin = [], currentDestination = [],
      sampleRoute = False, sampleMethod = ''interval'', intervalKm = ''5'', everyNth = ''10'',
      placesRadiusKm = ''5'', featuresRadiusKm = ''1'', numberInputsValid = True\<rparr>"

definition blank_form :: form where
  "blank_form = example_form\<lparr>originInput := [], destinationInput := []\<rparr>"

definition example_remote :: remote where
  "example_remote =
     \<lparr>geocode = (\<lambda>a. if a = ''Munich'' then Some (48137000, 11575000)
                     else if a = ''Vienna'' then Some (48208000, 16373000)
                     else if a = ''Salzburg'' then Some (47811000, 13055000) else None),
      routeRequest = (\<lambda>req. Inr
                     \<lparr>polyline_coords = Some (CoordArray [origin req, destination req]),
                     distance_text = ''434 km'', duration_text = ''4 hours 10 mins'',
                     sampled_points = None\<rparr>),
      placesRequest = (\<lambda>coords r. Inr [(''Cafe'', ''cafe'', (48150000, 12000000))]),
      featuresRequest = (\<lambda>coords r. Inr [(''Inn'', ''river'', (48250000, 13000000))])\<rparr>"

definition failing_remote :: remote where
  "failing_remote =
     example_remote\<lparr>placesRequest := (\<lambda>coords r. Inl ''Failed to get places''),
       featuresRequest := (\<lambda>coords r. Inl ''Failed to get natural features'')\<rparr>"

text \<open>The bubble as \<open>sendMessage\<close> creates it, and the two coordinate displays of the page.\<close>

definition fresh_bubble :: bubble where
  "fresh_bubble = \<lparr>textContent = [], cursor = True, errorClass = False\<rparr>"

definition index_document :: "string \<rightharpoonup> display" where
  "index_document =
     [''origin-coords'' \<mapsto> \<lparr>shown = NoText, error_style = False\<rparr>,
      ''destination-coords'' \<mapsto> \<lparr>shown = NoText, error_style = False\<rparr>]"

section \<open>The decoder: splitting and buffering\<close>

subsection \<open>The split function\<close>

lemma split_nn_nonempty: "split_nn s \<noteq> []"
  by (induction s rule: split_nn.induct) (auto split: list.splits)

lemma split_nn_cons:
  "\<not> (a = CHR 0x0A \<and> b = CHR 0x0A) \<Longrightarrow> split_nn (b # cs) = p # ps \<Longrightarrow>
   split_nn (a # b # cs) = (a # p) # ps"
  by simp

lemma split_nn_single: "split_nn s = [p] \<Longrightarrow> p = s"
proof (induction s arbitrary: p rule: split_nn.induct)
  case (1 a b cs)
  from 1(3) have nd: "\<not> (a = CHR 0x0A \<and> b = CHR 0x0A)"
    using split_nn_nonempty [of cs] by auto
  obtain q qs where q: "split_nn (b # cs) = q # qs"
    using split_nn_nonempty [of "b # cs"] by (cases "split_nn (b # cs)") auto
  with nd 1(3) have "qs = []" "p = a # q" by (simp_all add: split_nn_cons del: split_nn.simps)
  with 1(2) [of q] nd q show ?case by simp
qed simp_all

lemma split_nn_append:
  "split_nn (s @ t) = butlast (split_nn s) @ split_nn (last (split_nn s) @ t)"
proof (induction s arbitrary: t rule: split_nn.induct)
  case (1 a b cs)
  show ?case
  proof (cases "a = CHR 0x0A \<and> b = CHR 0x0A")
    case True
    then show ?thesis using 1(1) [of t] split_nn_nonempty [of cs] by simp
  next
    case False
    obtain p ps where pps: "split_nn (b # cs) = p # ps"
      using split_nn_nonempty [of "b # cs"] by (cases "split_nn (b # cs)") auto
    have s: "split_nn (a # b # cs) = (a # p) # ps"
      using False pps by (rule split_nn_cons)
    have ih: "split_nn (b # cs @ t) = butlast (p # ps) @ split_nn (last (p # ps) @ t)"
      using 1(2) [of t] False pps by simp
    show ?thesis
    proof (cases ps)
      case Nil
      with s have "split_nn (a # b # cs) = [a # b # cs]"
        using split_nn_single by fastforce
      then show ?thesis by (simp del: split_nn.simps)
    next
      case (Cons q qs)
      with ih have "split_nn (b # cs @ t) = p # (butlast ps @ split_nn (last ps @ t))"
        by simp
      with False have "split_nn (a # b # cs @ t) = (a # p) # (butlast ps @ split_nn (last ps @ t))"
        by (rule split_nn_cons)
      with s Cons show ?thesis by (simp del: split_nn.simps)
    qed
  qed
qed simp_all

lemma split_nn_no_delim: "\<not> has_nn s \<Longrightarrow> split_nn s = [s]"
  by (induction s rule: split_nn.induct) auto

lemma has_nn_last_split: "\<not> has_nn (last (split_nn s))"
proof (induction s rule: split_nn.induct)
  case (1 a b cs)
  show ?case
  proof (cases "a = CHR 0x0A \<and> b = CHR 0x0A")
    case True
    then show ?thesis using 1(1) split_nn_nonempty [of cs] by simp
  next
    case False
    obtain p ps where pps: "split_nn (b # cs) = p # ps"
      using split_nn_nonempty [of "b # cs"] by (cases "split_nn (b # cs)") auto
    have s: "split_nn (a # b # cs) = (a # p) # ps"
      using False pps by (rule split_nn_cons)
    show ?thesis
    proof (cases ps)
      case Nil
      with pps have "p = b # cs" using split_nn_single by simp
      with 1(2) False pps Nil s show ?thesis by (simp del: split_nn.simps)
    next
      case (Cons q qs)
      with 1(2) False pps s show ?thesis by (simp del: split_nn.simps)
    qed
  qed
qed simp_all

lemma split_nn_segment:
  "segment m \<Longrightarrow> split_nn (m @ CHR 0x0A # CHR 0x0A # t) = m # split_nn t"
proof (induction m rule: split_nn.induct)
  case (1 a b cs)
  then have nd: "\<not> (a = CHR 0x0A \<and> b = CHR 0x0A)" and seg: "segment (b # cs)"
    by (auto simp: segment_def)
  from 1(2) [OF nd seg] nd show ?case by simp
qed (auto simp: segment_def)

lemma split_nn_sse:
  "\<forall>m \<in> set msgs. segment m \<Longrightarrow> \<not> has_nn t \<Longrightarrow> split_nn (sse msgs @ t) = msgs @ [t]"
  by (induction msgs) (simp_all add: sse_def split_nn_no_delim split_nn_segment del: split_nn.simps)

subsection \<open>The buffer is invisible to the handlers\<close>

lemma handleData_buffer:
  "handleData s (d\<lparr>buffer := b\<rparr>) m =
     (case handleData s d m of (d1, e1, r) \<Rightarrow> (d1\<lparr>buffer := b\<rparr>, e1, r))"
  by (simp add: handleData_def routeGenerated_def placesRequested_def featuresRequested_def
      waypointAdded_def streamFields_def fromEvent_def finish_def Let_def
      split: option.splits bool.splits prod.splits)

lemma handleLine_buffer:
  "handleLine P s (d\<lparr>buffer := b\<rparr>) l =
     (case handleLine P s d l of (d1, e1, r) \<Rightarrow> (d1\<lparr>buffer := b\<rparr>, e1, r))"
  by (simp add: handleLine_def handleData_buffer split: option.splits)

lemma handleLines_buffer:
  "handleLines P s (d\<lparr>buffer := b\<rparr>) ls =
     (case handleLines P s d ls of (d1, e1, r) \<Rightarrow> (d1\<lparr>buffer := b\<rparr>, e1, r))"
proof (induction ls arbitrary: d)
  case Nil
  show ?case by simp
next
  case (Cons l ls)
  obtain d1 e1 r where h: "handleLine P s d l = (d1, e1, r)"
    by (cases "handleLine P s d l") auto
  show ?case
    using Cons [of d1] by (cases r) (simp_all add: handleLine_buffer h split: prod.splits)
qed

lemma handleData_keeps_buffer: "handleData s d m = (d1, e1, r) \<Longrightarrow> buffer d1 = buffer d"
  by (auto simp: handleData_def routeGenerated_def placesRequested_def featuresRequested_def
      waypointAdded_def streamFields_def fromEvent_def finish_def Let_def
      split: option.splits bool.splits prod.splits if_splits)

lemma handleLine_keeps_buffer: "handleLine P s d l = (d1, e1, r) \<Longrightarrow> buffer d1 = buffer d"
  by (auto simp: handleLine_def dest: handleData_keeps_buffer split: option.splits if_splits)

lemma handleLines_keeps_buffer: "handleLines P s d ls = (d1, e1, r) \<Longrightarrow> buffer d1 = buffer d"
proof (induction ls arbitrary: d d1 e1 r)
  case Nil
  then show ?case by simp
next
  case (Cons l ls)
  obtain d' e' r' where h: "handleLine P s d l = (d', e', r')"
    by (cases "handleLine P s d l") auto
  show ?case
  proof (cases r')
    case True
    with Cons(2) h show ?thesis by (auto dest: handleLine_keeps_buffer)
  next
    case False
    obtain d2 e2 r2 where h2: "handleLines P s d' ls = (d2, e2, r2)"
      by (cases "handleLines P s d' ls") auto
    with Cons(2) h False have "d1 = d2" by simp
    with Cons(1) [OF h2] h show ?thesis by (auto dest: handleLine_keeps_buffer)
  qed
qed

lemma streamEnd_buffer: "streamEnd (d\<lparr>buffer := b\<rparr>) ending = streamEnd d ending"
  by (simp add: streamEnd_def split: option.splits)

lemma decodeMessages_buffer:
  "decodeMessages P s (d\<lparr>buffer := b\<rparr>) ls ending = decodeMessages P s d ls ending"
  by (simp add: decodeMessages_def handleLines_buffer streamEnd_buffer split: prod.splits bool.splits)

subsection \<open>The loop over fragments is the loop over all lines\<close>

lemma handleLines_append:
  "handleLines P s d (xs @ ys) =
     (case handleLines P s d xs of
        (d1, e1, True) \<Rightarrow> (d1, e1, True)
      | (d1, e1, False) \<Rightarrow>
          (case handleLines P s d1 ys of (d2, e2, r) \<Rightarrow> (d2, e1 @ e2, r)))"
proof (induction xs arbitrary: d)
  case Nil
  show ?case by (simp split: prod.splits)
next
  case (Cons x xs)
  obtain d1 e1 r where h: "handleLine P s d x = (d1, e1, r)"
    by (cases "handleLine P s d x") auto
  show ?case
    using Cons [of d1] by (cases r) (simp_all add: h split: prod.splits bool.splits)
qed

lemma decodeMessages_append:
  "decodeMessages P s d (xs @ ys) ending =
     (case handleLines P s d xs of
        (d1, e1, True) \<Rightarrow> e1
      | (d1, e1, False) \<Rightarrow> e1 @ decodeMessages P s d1 ys ending)"
  by (simp add: decodeMessages_def handleLines_append split: prod.splits bool.splits)

lemma processStream_decode:
  "\<not> has_nn (buffer d) \<Longrightarrow>
   processStream P s d fragments ending =
     decodeMessages P s d (butlast (split_nn (buffer d @ concat fragments))) ending"
proof (induction fragments arbitrary: d)
  case Nil
  then show ?case by (simp add: split_nn_no_delim decodeMessages_def)
next
  case (Cons v rest)
  let ?lines = "split_nn (buffer d @ v)"
  let ?d0 = "d\<lparr>buffer := last ?lines\<rparr>"
  obtain d1 e1 r where h: "handleLines P s ?d0 (butlast ?lines) = (d1, e1, r)"
    by (cases "handleLines P s ?d0 (butlast ?lines)") auto
  have b1: "buffer d1 = last ?lines"
    using handleLines_keeps_buffer [OF h] by simp
  have sp: "split_nn (buffer d @ concat (v # rest)) =
      butlast ?lines @ split_nn (last ?lines @ concat rest)"
    using split_nn_append [of "buffer d @ v" "concat rest"] by simp
  have bl: "butlast (split_nn (buffer d @ concat (v # rest))) =
      butlast ?lines @ butlast (split_nn (last ?lines @ concat rest))"
    by (simp only: sp butlast_append split_nn_nonempty if_False)
  have rhs: "decodeMessages P s d (butlast (split_nn (buffer d @ concat (v # rest)))) ending =
      decodeMessages P s ?d0 (butlast ?lines @ butlast (split_nn (last ?lines @ concat rest))) ending"
    by (simp only: bl decodeMessages_buffer)
  show ?case
  proof (cases r)
    case True
    then show ?thesis
      unfolding rhs decodeMessages_append using h by (simp add: Let_def)
  next
    case False
    have "\<not> has_nn (buffer d1)" by (simp add: b1 has_nn_last_split)
    from Cons(1) [OF this] have
      "processStream P s d1 rest ending =
         decodeMessages P s d1 (butlast (split_nn (last ?lines @ concat rest))) ending"
      by (simp add: b1)
    with False show ?thesis
      unfolding rhs decodeMessages_append using h by (simp add: Let_def)
  qed
qed

lemma stream_as_lines:
  "streamChatMessage P s pg fragments ending =
     decodeMessages P s (initial pg) (butlast (split_nn (concat fragments))) ending"
proof -
  have b: "\<not> has_nn (buffer (initial pg))" by (simp add: initial_def)
  show ?thesis
    unfolding streamChatMessage_def processStream_decode [OF b] by (simp add: initial_def)
qed

lemma stream_as_messages:
  assumes "list_all segment msgs" and "\<not> has_nn rest"
    and "concat fragments = sse msgs @ rest"
  shows "streamChatMessage P s pg fragments ending = decodeMessages P s (initial pg) msgs ending"
proof -
  have b: "\<not> has_nn (buffer (initial pg))" by (simp add: initial_def)
  have e: "buffer (initial pg) = []" by (simp add: initial_def)
  have "\<forall>m \<in> set msgs. segment m" using assms(1) by (simp add: list_all_iff)
  then have "split_nn (concat fragments) = msgs @ [rest]"
    using assms by (simp add: split_nn_sse del: split_nn.simps)
  then show ?thesis
    unfolding streamChatMessage_def processStream_decode [OF b] e by simp
qed

section \<open>The event stream\<close>

subsection \<open>Fragment boundaries do not matter\<close>

text \<open>
  C1. Whenever the concatenation of the fragments is a sequence of messages, each
  followed by the separator, and then an unterminated rest, the run of
  \<open>streamChatMessage\<close> over the fragments has exactly the effects of handling the
  messages one by one in order and then ending the source; the rest is dropped. The
  result is therefore the same as for the whole text delivered as one fragment,
  wherever the fragment boundaries fall.
\<close>

theorem fragments_decode_as_messages:
  assumes "list_all segment msgs" and "\<not> has_nn rest"
    and "concat fragments = sse msgs @ rest"
  shows "streamChatMessage P s pg fragments ending = decodeMessages P s (initial pg) msgs ending
    \<and> streamChatMessage P s pg fragments ending = streamChatMessage P s pg [concat fragments] ending"
proof -
  have 1: "streamChatMessage P s pg fragments ending = decodeMessages P s (initial pg) msgs ending"
    using assms by (rule stream_as_messages)
  have 2: "streamChatMessage P s pg fragments ending = streamChatMessage P s pg [concat fragments] ending"
    by (simp add: stream_as_lines)
  from 1 2 show ?thesis by simp
qed

theorem fragments_decode_as_messages_witness:
  \<open>list_all segment [''data: {"chunk":"Hi"}'', ''data: {"chunk":" there"}'',
        ''data: {"complete":true,"requires_ui_update":false}'']
   \<and> \<not> has_nn ''data: {"chu''
   \<and> concat [''data: {"chu'', ''nk":"Hi"}\<newline>'', ''\<newline>data: {"chunk":" there"}\<newline>\<newline>data: {"comp'',
        ''lete":true,"requires_ui_update":false}\<newline>\<newline>data: {"chu''] =
     sse [''data: {"chunk":"Hi"}'', ''data: {"chunk":" there"}'',
        ''data: {"complete":true,"requires_ui_update":false}''] @ ''data: {"chu''
   \<and> streamChatMessage stream_parse empty_session example_page
       [''data: {"chu'', ''nk":"Hi"}\<newline>'', ''\<newline>data: {"chunk":" there"}\<newline>\<newline>data: {"comp'',
        ''lete":true,"requires_ui_update":false}\<newline>\<newline>data: {"chu''] None =
     [OnChunk ''Hi'', OnChunk '' there'', OnComplete ''Hi there'' False]\<close>
proof -
  let ?msgs = \<open>[''data: {"chunk":"Hi"}'', ''data: {"chunk":" there"}'',
        ''data: {"complete":true,"requires_ui_update":false}'']\<close>
  let ?frags = \<open>[''data: {"chu'', ''nk":"Hi"}\<newline>'', ''\<newline>data: {"chunk":" there"}\<newline>\<newline>data: {"comp'',
        ''lete":true,"requires_ui_update":false}\<newline>\<newline>data: {"chu'']\<close>
  have h1: "list_all segment ?msgs" by (simp add: segment_def)
  have h2: \<open>\<not> has_nn ''data: {"chu''\<close> by simp
  have h3: \<open>concat ?frags = sse ?msgs @ ''data: {"chu''\<close> by (simp add: sse_def)
  have ev: "decodeMessages stream_parse empty_session (initial example_page) ?msgs None =
      [OnChunk ''Hi'', OnChunk '' there'', OnComplete ''Hi there'' False]"
    by (simp add: decodeMessages_def handleLine_def handleData_def streamFields_def
        stream_parse_def no_fields_def truthy_str_def truthy_bool_def or_empty_def or_false_def
        streamEnd_def initial_def)
  from fragments_decode_as_messages [OF h1 h2 h3, of stream_parse empty_session example_page None]
  show ?thesis using h1 h2 h3 ev by simp
qed

subsection \<open>Which field of a message wins\<close>









subsection \<open>The natural end of a stream\<close>

lemma handleData_plain:
  "plain m \<Longrightarrow>
   handleData s d m =
     (d\<lparr>fullResponse := fullResponse d @ (if truthy_str (chunk m) then or_empty (chunk m) else []),
        requiresUpdate := (if truthy_bool (complete m) then or_false (requires_ui_update m)
                           else requiresUpdate d)\<rparr>,
      (if truthy_str (chunk m) then [OnChunk (or_empty (chunk m))] else []), False)"
  by (auto simp: plain_def terminalStatus_def handleData_def streamFields_def Let_def)

lemma decoded_Nil: "decoded P [] = []"
  by (simp add: decoded_def)

lemma decoded_Cons:
  "decoded P (l # ls) =
     (if take 6 l = ''data: '' then (case P (drop 6 l) of None \<Rightarrow> decoded P ls | Some m \<Rightarrow> m # decoded P ls)
      else decoded P ls)"
  by (simp add: decoded_def split: option.splits)

lemma flagFrom_Nil: "flagFrom f0 [] = f0"
  by (simp add: flagFrom_def)

lemma flagFrom_Cons:
  "flagFrom f0 (m # ms) =
     flagFrom (if truthy_bool (complete m) then or_false (requires_ui_update m) else f0) ms"
  by (simp add: flagFrom_def Let_def)

lemma chunksOf_Cons:
  "chunksOf (m # ms) = (if truthy_str (chunk m) then or_empty (chunk m) # chunksOf ms else chunksOf ms)"
  by (simp add: chunksOf_def)

lemma handleLines_plain:
  "list_all plain (decoded P ls) \<Longrightarrow> handleLines P s d ls = (d', es, r) \<Longrightarrow>
   \<not> r \<and> events es = map OnChunk (chunksOf (decoded P ls))
     \<and> fullResponse d' = fullResponse d @ concat (chunksOf (decoded P ls))
     \<and> requiresUpdate d' = flagFrom (requiresUpdate d) (decoded P ls)"
proof (induction ls arbitrary: d d' es r)
  case Nil
  then show ?case by (simp add: decoded_Nil flagFrom_Nil chunksOf_def events_def)
next
  case (Cons l ls)
  show ?case
  proof (cases "take 6 l = ''data: ''")
    case False
    then have hl: "handleLine P s d l = (d, [], False)" by (simp add: handleLine_def)
    obtain d2 e2 r2 where h2: "handleLines P s d ls = (d2, e2, r2)"
      by (cases "handleLines P s d ls") auto
    from Cons(2) False have pl: "list_all plain (decoded P ls)" by (simp add: decoded_Cons)
    from Cons(3) hl h2 have eq: "d' = d2" "es = e2" "r = r2" by simp_all
    from Cons(1) [OF pl h2] eq False show ?thesis by (simp add: decoded_Cons)
  next
    case True
    show ?thesis
    proof (cases "P (drop 6 l)")
      case None
      with True have hl: "handleLine P s d l = (d, [ParseErrorLogged l], False)"
        by (simp add: handleLine_def)
      obtain d2 e2 r2 where h2: "handleLines P s d ls = (d2, e2, r2)"
        by (cases "handleLines P s d ls") auto
      from Cons(2) True None have pl: "list_all plain (decoded P ls)" by (simp add: decoded_Cons)
      from Cons(3) hl h2 have eq: "d' = d2" "es = ParseErrorLogged l # e2" "r = r2" by simp_all
      from Cons(1) [OF pl h2] eq True None show ?thesis by (simp add: decoded_Cons events_def)
    next
      case (Some m)
      with Cons(2) True have pm: "plain m" and pl: "list_all plain (decoded P ls)"
        by (simp_all add: decoded_Cons)
      let ?d1 = "d\<lparr>fullResponse := fullResponse d @ (if truthy_str (chunk m) then or_empty (chunk m) else []),
        requiresUpdate := (if truthy_bool (complete m) then or_false (requires_ui_update m)
                           else requiresUpdate d)\<rparr>"
      let ?e1 = "(if truthy_str (chunk m) then [OnChunk (or_empty (chunk m))] else [])"
      from True Some have hl: "handleLine P s d l = (?d1, ?e1, False)"
        by (simp add: handleLine_def handleData_plain [OF pm])
      obtain d2 e2 r2 where h2: "handleLines P s ?d1 ls = (d2, e2, r2)"
        by (cases "handleLines P s ?d1 ls") auto
      from Cons(3) hl h2 have eq: "d' = d2" "es = ?e1 @ e2" "r = r2" by simp_all
      from Cons(1) [OF pl h2] eq True Some show ?thesis
        by (simp add: decoded_Cons events_def flagFrom_Cons chunksOf_Cons)
    qed
  qed
qed

text \<open>
  C3, as the specification states it, fails. It counts every message that carries a
  \<open>chunk\<close> field as a chunk message and takes the flag from the last message that
  carries a \<open>complete\<close> field. The code tests both fields for truthiness: in the
  stream below the message with the empty chunk is not reported, and the message with
  \<open>complete\<close> false does not set the flag, although no message ends the stream.
\<close>

theorem falsy_fields_counterexample:
  \<open>list_all plain (decoded stream_parse (segmentsOf
      [''data: {"chunk":"Hi"}\<newline>\<newline>data: {"chunk":""}\<newline>\<newline>'',
       ''data: {"complete":false,"requires_ui_update":true}\<newline>\<newline>'']))
   \<and> events (streamChatMessage stream_parse empty_session example_page
      [''data: {"chunk":"Hi"}\<newline>\<newline>data: {"chunk":""}\<newline>\<newline>'',
       ''data: {"complete":false,"requires_ui_update":true}\<newline>\<newline>''] None) =
     [OnChunk ''Hi'', OnComplete ''Hi'' False]
   \<and> eventsAsStated (decoded stream_parse (segmentsOf
      [''data: {"chunk":"Hi"}\<newline>\<newline>data: {"chunk":""}\<newline>\<newline>'',
       ''data: {"complete":false,"requires_ui_update":true}\<newline>\<newline>''])) =
     [OnChunk ''Hi'', OnChunk [], OnComplete ''Hi'' True]\<close>
proof -
  let ?frags = \<open>[''data: {"chunk":"Hi"}\<newline>\<newline>data: {"chunk":""}\<newline>\<newline>'',
       ''data: {"complete":false,"requires_ui_update":true}\<newline>\<newline>'']\<close>
  have seg: \<open>segmentsOf ?frags = [''data: {"chunk":"Hi"}'', ''data: {"chunk":""}'',
       ''data: {"complete":false,"requires_ui_update":true}'']\<close>
    by (simp add: segmentsOf_def)
  have dec: \<open>decoded stream_parse (segmentsOf ?frags) =
      [no_fields\<lparr>chunk := Some ''Hi''\<rparr>, no_fields\<lparr>chunk := Some []\<rparr>,
       no_fields\<lparr>complete := Some False, requires_ui_update := Some True\<rparr>]\<close>
    unfolding seg by (simp add: decoded_def stream_parse_def)
  have a: "list_all plain (decoded stream_parse (segmentsOf ?frags))"
    unfolding dec by (simp add: plain_def terminalStatus_def no_fields_def truthy_str_def)
  have b: "events (streamChatMessage stream_parse empty_session example_page ?frags None) =
      [OnChunk ''Hi'', OnComplete ''Hi'' False]"
    by code_simp
  have c: "eventsAsStated (decoded stream_parse (segmentsOf ?frags)) =
      [OnChunk ''Hi'', OnChunk [], OnComplete ''Hi'' True]"
    unfolding dec by code_simp
  from a b c show ?thesis by (intro conjI)
qed

text \<open>
  C3, amended. When none of the messages of a stream ends it (no recognised status, no
  error) and the source ends by itself, the events are one text-chunk event for each
  message whose \<open>chunk\<close> field is truthy (a non-empty string), in order, and then
  exactly one completion event: its text is the concatenation of those chunk payloads,
  its flag the \<open>requires_ui_update\<close> of the last message whose \<open>complete\<close> field
  is truthy, and \<open>False\<close> when there was none.
\<close>

theorem natural_end_completion:
  assumes "list_all plain (decoded P (segmentsOf fragments))"
  shows "events (streamChatMessage P s pg fragments None) =
     map OnChunk (chunksOf (decoded P (segmentsOf fragments))) @
     [OnComplete (concat (chunksOf (decoded P (segmentsOf fragments))))
        (flagFrom False (decoded P (segmentsOf fragments)))]"
proof -
  obtain d' es r where h: "handleLines P s (initial pg) (segmentsOf fragments) = (d', es, r)"
    by (cases "handleLines P s (initial pg) (segmentsOf fragments)") auto
  from handleLines_plain [OF assms h] h show ?thesis
    by (simp add: stream_as_lines segmentsOf_def decodeMessages_def streamEnd_def events_def
        initial_def)
qed

theorem natural_end_completion_witness:
  \<open>list_all plain (decoded stream_parse (segmentsOf
      [''data: {"chunk":"Hi"}\<newline>\<newline>data: {"chu'', ''nk":" there"}\<newline>'',
       ''\<newline>data: {"complete":true,"requires_ui_update":true}\<newline>\<newline>'']))
   \<and> events (streamChatMessage stream_parse empty_session example_page
      [''data: {"chunk":"Hi"}\<newline>\<newline>data: {"chu'', ''nk":" there"}\<newline>'',
       ''\<newline>data: {"complete":true,"requires_ui_update":true}\<newline>\<newline>''] None) =
     [OnChunk ''Hi'', OnChunk '' there'', OnComplete ''Hi there'' True]\<close>
proof -
  let ?frags = \<open>[''data: {"chunk":"Hi"}\<newline>\<newline>data: {"chu'', ''nk":" there"}\<newline>'',
       ''\<newline>data: {"complete":true,"requires_ui_update":true}\<newline>\<newline>'']\<close>
  have seg: \<open>segmentsOf ?frags = [''data: {"chunk":"Hi"}'', ''data: {"chunk":" there"}'',
       ''data: {"complete":true,"requires_ui_update":true}'']\<close>
    by (simp add: segmentsOf_def)
  have dec: \<open>decoded stream_parse (segmentsOf ?frags) =
      [no_fields\<lparr>chunk := Some ''Hi''\<rparr>, no_fields\<lparr>chunk := Some '' there''\<rparr>,
       no_fields\<lparr>complete := Some True, requires_ui_update := Some True\<rparr>]\<close>
    unfolding seg by (simp add: decoded_def stream_parse_def)
  have h: "list_all plain (decoded stream_parse (segmentsOf ?frags))"
    unfolding dec by (simp add: plain_def terminalStatus_def no_fields_def truthy_str_def)
  from natural_end_completion [OF h, of empty_session example_page] show ?thesis
    using h unfolding dec
    by (simp add: chunksOf_def flagFrom_def no_fields_def truthy_str_def truthy_bool_def
        or_empty_def or_false_def)
qed

subsection \<open>A malformed message\<close>

lemma handleLine_malformed:
  "take 6 bad = ''data: '' \<Longrightarrow> P (drop 6 bad) = None \<Longrightarrow>
   handleLine P s d bad = (d, [ParseErrorLogged bad], False)"
  by (simp add: handleLine_def)

lemma decodeMessages_Cons:
  "decodeMessages P s d (l # ls) ending =
     (case handleLine P s d l of
        (d1, e1, True) \<Rightarrow> e1
      | (d1, e1, False) \<Rightarrow> e1 @ decodeMessages P s d1 ls ending)"
  by (simp add: decodeMessages_def split: prod.splits bool.splits)

lemma decodeMessages_malformed:
  assumes "take 6 bad = ''data: ''" and "P (drop 6 bad) = None"
  shows "filter (\<lambda>e. e \<noteq> ParseErrorLogged bad) (decodeMessages P s d (pre @ bad # post) ending) =
         filter (\<lambda>e. e \<noteq> ParseErrorLogged bad) (decodeMessages P s d (pre @ post) ending)"
proof -
  obtain d1 e1 r where h: "handleLines P s d pre = (d1, e1, r)"
    by (cases "handleLines P s d pre") auto
  have hb: "handleLine P s d1 bad = (d1, [ParseErrorLogged bad], False)"
    using assms by (rule handleLine_malformed)
  show ?thesis
    unfolding decodeMessages_append h by (cases r) (simp_all add: decodeMessages_Cons hb)
qed

text \<open>
  C4. A segment with the \<open>data: \<close> prefix whose remainder does not parse is logged, leaves
  the decoder as it was and does not end the loop; the stream that contains it has, the
  log entry apart, exactly the effects of the same stream without it, so every message
  before and after it is decoded as if it were not there.
\<close>

theorem malformed_message_skipped:
  assumes "list_all segment (pre @ bad # post)" and "\<not> has_nn rest" and "\<not> has_nn rest'"
    and "take 6 bad = ''data: ''" and "JSON_parse (drop 6 bad) = None"
    and "concat fragments = sse (pre @ bad # post) @ rest"
    and "concat fragments' = sse (pre @ post) @ rest'"
  shows "handleLine JSON_parse s d bad = (d, [ParseErrorLogged bad], False)
    \<and> filter (\<lambda>e. e \<noteq> ParseErrorLogged bad) (streamChatMessage JSON_parse s pg fragments ending) =
      filter (\<lambda>e. e \<noteq> ParseErrorLogged bad) (streamChatMessage JSON_parse s pg fragments' ending)"
proof -
  have seg': "list_all segment (pre @ post)" using assms(1) by simp
  have 1: "streamChatMessage JSON_parse s pg fragments ending =
      decodeMessages JSON_parse s (initial pg) (pre @ bad # post) ending"
    using assms(1,2,6) by (rule stream_as_messages)
  have 2: "streamChatMessage JSON_parse s pg fragments' ending =
      decodeMessages JSON_parse s (initial pg) (pre @ post) ending"
    using seg' assms(3,7) by (rule stream_as_messages)
  show ?thesis
    unfolding 1 2 using assms(4,5) by (simp add: handleLine_malformed decodeMessages_malformed)
qed

theorem malformed_message_skipped_witness:
  \<open>list_all segment ([''data: {"chunk":"Hi"}''] @ ''data: {"chunk":'' # [''data: {"chunk":" there"}''])
   \<and> \<not> has_nn [] \<and> take 6 ''data: {"chunk":'' = ''data: ''
   \<and> stream_parse (drop 6 ''data: {"chunk":'') = None
   \<and> concat [''data: {"chunk":"Hi"}\<newline>\<newline>data: {"chunk":\<newline>'', ''\<newline>data: {"chunk":" there"}\<newline>\<newline>''] =
       sse ([''data: {"chunk":"Hi"}''] @ ''data: {"chunk":'' # [''data: {"chunk":" there"}'']) @ []
   \<and> concat [''data: {"chunk":"Hi"}\<newline>\<newline>data: {"chunk":" there"}\<newline>\<newline>''] =
       sse ([''data: {"chunk":"Hi"}''] @ [''data: {"chunk":" there"}'']) @ []
   \<and> filter (\<lambda>e. e \<noteq> ParseErrorLogged ''data: {"chunk":'')
       (streamChatMessage stream_parse empty_session example_page
          [''data: {"chunk":"Hi"}\<newline>\<newline>data: {"chunk":\<newline>'', ''\<newline>data: {"chunk":" there"}\<newline>\<newline>''] None) =
     [OnChunk ''Hi'', OnChunk '' there'', OnComplete ''Hi there'' False]\<close>
proof -
  let ?pre = \<open>[''data: {"chunk":"Hi"}'']\<close>
  let ?bad = \<open>''data: {"chunk":''\<close>
  let ?post = \<open>[''data: {"chunk":" there"}'']\<close>
  let ?f = \<open>[''data: {"chunk":"Hi"}\<newline>\<newline>data: {"chunk":\<newline>'', ''\<newline>data: {"chunk":" there"}\<newline>\<newline>'']\<close>
  let ?f' = \<open>[''data: {"chunk":"Hi"}\<newline>\<newline>data: {"chunk":" there"}\<newline>\<newline>'']\<close>
  have h1: "list_all segment (?pre @ ?bad # ?post)" by (simp add: segment_def)
  have h2: "\<not> has_nn []" by simp
  have h4: "take 6 ?bad = ''data: ''" by simp
  have h5: "stream_parse (drop 6 ?bad) = None" by (simp add: stream_parse_def)
  have h6: "concat ?f = sse (?pre @ ?bad # ?post) @ []" by (simp add: sse_def)
  have h7: "concat ?f' = sse (?pre @ ?post) @ []" by (simp add: sse_def)
  have ev: "streamChatMessage stream_parse empty_session example_page ?f' None =
      [OnChunk ''Hi'', OnChunk '' there'', OnComplete ''Hi there'' False]"
    by (simp add: streamChatMessage_def initial_def handleLine_def handleData_def
        streamFields_def stream_parse_def no_fields_def truthy_str_def truthy_bool_def
        or_empty_def or_false_def streamEnd_def)
  from malformed_message_skipped [where JSON_parse = stream_parse and s = empty_session
      and pg = example_page and ending = None, OF h1 h2 h2 h4 h5 h6 h7]
  show ?thesis using h1 h2 h4 h5 h6 h7 unfolding ev by simp
qed

subsection \<open>Places and features requested from the chat\<close>

lemma no_route_not_reusable: "routeCoords s = None \<Longrightarrow> reusableRoute f s = None"
  by (cases "currentRoute s") (auto simp: routeCoords_def reusableRoute_def)

lemma placesRequested_result:
  "truthy_bool (show_places m) \<Longrightarrow>
   placesRequested s d m =
     (d\<lparr>fullResponse := or_empty (message m),
        requiresUpdate := or_false (requires_ui_update m),
        page := (page d)\<lparr>show_places_checked := enable (show_places_checked (page d))\<rparr>\<rparr>,
      (if show_places_checked (page d) = Some False then [ChangeEvent ''show-places''] else []) @
      (case routeCoords s of
         Some coords \<Rightarrow>
           [GetPlaces coords
              (map_option radius (currentPlaces s) \<noteq> Some (places_radius (page d)))]
       | None \<Rightarrow> (if generate_route_btn (page d) then [ClickGenerateRoute] else [])) @
      [OnComplete (or_empty (message m)) (or_false (requires_ui_update m)), ReaderCancel],
      True)"
  by (simp add: placesRequested_def fromEvent_def finish_def clickGenerate_def routeCoords_def
      enable_def Let_def split: option.splits bool.splits)

lemma featuresRequested_result:
  "truthy_bool (show_features m) \<Longrightarrow>
   featuresRequested s d m =
     (d\<lparr>fullResponse := or_empty (message m),
        requiresUpdate := or_false (requires_ui_update m),
        page := (page d)\<lparr>show_features_checked := enable (show_features_checked (page d))\<rparr>\<rparr>,
      (if show_features_checked (page d) = Some False then [ChangeEvent ''show-features''] else []) @
      (case routeCoords s of
         Some coords \<Rightarrow>
           [GetNaturalFeatures coords
              (map_option radius (currentFeatures s) \<noteq> Some (features_radius (page d)))]
       | None \<Rightarrow> (if generate_route_btn (page d) then [ClickGenerateRoute] else [])) @
      [OnComplete (or_empty (message m)) (or_false (requires_ui_update m)), ReaderCancel],
      True)"
  by (simp add: featuresRequested_def fromEvent_def finish_def clickGenerate_def routeCoords_def
      enable_def Let_def split: option.splits bool.splits)

lemma deliver_click_complete:
  "reusableRoute f (store c) = None \<Longrightarrow>
   foldl (deliver f) c
     ((if b then [ChangeEvent i] else []) @ [ClickGenerateRoute] @ [OnComplete t u, ReaderCancel]) =
    (if formValid f then
       c\<lparr>store := resetCachedData (store c),
         bubble := onComplete t (bubble c),
         flows := flows c @ [GenerateRouteFlow] @ (if u then [CheckForRouteUpdateFlow] else [])\<rparr>
     else
       c\<lparr>bubble := onComplete t (bubble c),
         flows := flows c @ (if u then [CheckForRouteUpdateFlow] else [])\<rparr>)"
  by simp

text \<open>
  C7, as the specification states it, fails. Without a route it says that a full
  route-generation flow is triggered. The code clicks the generate-route button, the
  submit button of the route form, whose origin and destination inputs are required:
  on the page as it loads both are empty, the browser blocks the submission, and the
  \<open>places_requested\<close> message below starts no flow at all, while its completion is
  delivered.
\<close>

theorem blocked_submit_counterexample:
  \<open>streamChatMessage stream_parse empty_session example_page
     [''data: {"status":"places_requested","message":"Showing places","show_places":true}\<newline>\<newline>'']
     None =
     [ChangeEvent ''show-places'', ClickGenerateRoute, OnComplete ''Showing places'' False,
      ReaderCancel]
   \<and> foldl (deliver blank_form) \<lparr>store = empty_session, bubble = fresh_bubble, flows = []\<rparr>
     (streamChatMessage stream_parse empty_session example_page
       [''data: {"status":"places_requested","message":"Showing places","show_places":true}\<newline>\<newline>'']
       None) =
     \<lparr>store = empty_session,
      bubble = \<lparr>textContent = ''Showing places'', cursor = False, errorClass = False\<rparr>,
      flows = []\<rparr>\<close>
  by code_simp

text \<open>
  C7, amended. A \<open>places_requested\<close> message whose \<open>show_places\<close> is set switches
  the checkbox on (with a change event when it was off); with a current route whose
  \<open>polyline_coords\<close> is truthy it calls \<open>getPlaces\<close> for that value, forcing a
  refresh exactly when the cached radius is not the selected one (or nothing is cached);
  without such a route it clicks the generate-route button instead (when the page has
  it). The same holds for \<open>features_requested\<close>. The click starts the route flow
  only when the form passes the validation of the browser (its required origin and
  destination inputs filled, its number inputs within their bounds); otherwise nothing
  is started. In both cases the completion callback runs in the same step as the
  click: when the effects of the message have been delivered, the bubble holds the text
  of the message, while the route flow, if any, has only been started.
\<close>

theorem requested_event_dispatch:
  "(status m = Some ''places_requested'' \<and> truthy_bool (show_places m) \<longrightarrow>
      handleData s d m =
        (d\<lparr>fullResponse := or_empty (message m),
           requiresUpdate := or_false (requires_ui_update m),
           page := (page d)\<lparr>show_places_checked := enable (show_places_checked (page d))\<rparr>\<rparr>,
         (if show_places_checked (page d) = Some False then [ChangeEvent ''show-places''] else []) @
         (case routeCoords s of
            Some coords \<Rightarrow>
              [GetPlaces coords
                 (map_option radius (currentPlaces s) \<noteq> Some (places_radius (page d)))]
          | None \<Rightarrow> (if generate_route_btn (page d) then [ClickGenerateRoute] else [])) @
         [OnComplete (or_empty (message m)) (or_false (requires_ui_update m)), ReaderCancel],
         True))
   \<and> (status m = Some ''features_requested'' \<and> truthy_bool (show_features m) \<longrightarrow>
      handleData s d m =
        (d\<lparr>fullResponse := or_empty (message m),
           requiresUpdate := or_false (requires_ui_update m),
           page := (page d)\<lparr>show_features_checked := enable (show_features_checked (page d))\<rparr>\<rparr>,
         (if show_features_checked (page d) = Some False then [ChangeEvent ''show-features''] else []) @
         (case routeCoords s of
            Some coords \<Rightarrow>
              [GetNaturalFeatures coords
                 (map_option radius (currentFeatures s) \<noteq> Some (features_radius (page d)))]
          | None \<Rightarrow> (if generate_route_btn (page d) then [ClickGenerateRoute] else [])) @
         [OnComplete (or_empty (message m)) (or_false (requires_ui_update m)), ReaderCancel],
         True))
   \<and> ((status m = Some ''places_requested'' \<and> truthy_bool (show_places m) \<or>
        status m = Some ''features_requested'' \<and> truthy_bool (show_features m)) \<and>
       routeCoords (store c) = None \<and> generate_route_btn (page d) \<longrightarrow>
      foldl (deliver f) c (fst (snd (handleData (store c) d m))) =
        (if formValid f then
           c\<lparr>store := resetCachedData (store c),
             bubble := onComplete (or_empty (message m)) (bubble c),
             flows := flows c @ [GenerateRouteFlow] @
               (if or_false (requires_ui_update m) then [CheckForRouteUpdateFlow] else [])\<rparr>
         else
           c\<lparr>bubble := onComplete (or_empty (message m)) (bubble c),
             flows := flows c @
               (if or_false (requires_ui_update m) then [CheckForRouteUpdateFlow] else [])\<rparr>))"
proof -
  have p: "status m = Some ''places_requested'' \<Longrightarrow> handleData s d m = placesRequested s d m" for s
    by (simp add: handleData_def)
  have q: "status m = Some ''features_requested'' \<Longrightarrow> handleData s d m = featuresRequested s d m" for s
    by (simp add: handleData_def)
  have 1: "status m = Some ''places_requested'' \<and> truthy_bool (show_places m) \<longrightarrow>
      handleData s d m =
        (d\<lparr>fullResponse := or_empty (message m),
           requiresUpdate := or_false (requires_ui_update m),
           page := (page d)\<lparr>show_places_checked := enable (show_places_checked (page d))\<rparr>\<rparr>,
         (if show_places_checked (page d) = Some False then [ChangeEvent ''show-places''] else []) @
         (case routeCoords s of
            Some coords \<Rightarrow>
              [GetPlaces coords
                 (map_option radius (currentPlaces s) \<noteq> Some (places_radius (page d)))]
          | None \<Rightarrow> (if generate_route_btn (page d) then [ClickGenerateRoute] else [])) @
         [OnComplete (or_empty (message m)) (or_false (requires_ui_update m)), ReaderCancel],
         True)"
    using p [of s] placesRequested_result [of m s d] by simp
  have 2: "status m = Some ''features_requested'' \<and> truthy_bool (show_features m) \<longrightarrow>
      handleData s d m =
        (d\<lparr>fullResponse := or_empty (message m),
           requiresUpdate := or_false (requires_ui_update m),
           page := (page d)\<lparr>show_features_checked := enable (show_features_checked (page d))\<rparr>\<rparr>,
         (if show_features_checked (page d) = Some False then [ChangeEvent ''show-features''] else []) @
         (case routeCoords s of
            Some coords \<Rightarrow>
              [GetNaturalFeatures coords
                 (map_option radius (currentFeatures s) \<noteq> Some (features_radius (page d)))]
          | None \<Rightarrow> (if generate_route_btn (page d) then [ClickGenerateRoute] else [])) @
         [OnComplete (or_empty (message m)) (or_false (requires_ui_update m)), ReaderCancel],
         True)"
    using q [of s] featuresRequested_result [of m s d] by simp
  have 3: "(status m = Some ''places_requested'' \<and> truthy_bool (show_places m) \<or>
        status m = Some ''features_requested'' \<and> truthy_bool (show_features m)) \<and>
       routeCoords (store c) = None \<and> generate_route_btn (page d) \<longrightarrow>
      foldl (deliver f) c (fst (snd (handleData (store c) d m))) =
        (if formValid f then
           c\<lparr>store := resetCachedData (store c),
             bubble := onComplete (or_empty (message m)) (bubble c),
             flows := flows c @ [GenerateRouteFlow] @
               (if or_false (requires_ui_update m) then [CheckForRouteUpdateFlow] else [])\<rparr>
         else
           c\<lparr>bubble := onComplete (or_empty (message m)) (bubble c),
             flows := flows c @
               (if or_false (requires_ui_update m) then [CheckForRouteUpdateFlow] else [])\<rparr>)"
  proof (intro impI, elim conjE)
    assume k: "status m = Some ''places_requested'' \<and> truthy_bool (show_places m) \<or>
        status m = Some ''features_requested'' \<and> truthy_bool (show_features m)"
      and n: "routeCoords (store c) = None" and b: "generate_route_btn (page d)"
    have nr: "reusableRoute f (store c) = None" using n by (rule no_route_not_reusable)
    from k show "foldl (deliver f) c (fst (snd (handleData (store c) d m))) =
        (if formValid f then
           c\<lparr>store := resetCachedData (store c),
             bubble := onComplete (or_empty (message m)) (bubble c),
             flows := flows c @ [GenerateRouteFlow] @
               (if or_false (requires_ui_update m) then [CheckForRouteUpdateFlow] else [])\<rparr>
         else
           c\<lparr>bubble := onComplete (or_empty (message m)) (bubble c),
             flows := flows c @
               (if or_false (requires_ui_update m) then [CheckForRouteUpdateFlow] else [])\<rparr>)"
    proof
      assume a: "status m = Some ''places_requested'' \<and> truthy_bool (show_places m)"
      then have "fst (snd (handleData (store c) d m)) =
          (if show_places_checked (page d) = Some False then [ChangeEvent ''show-places''] else []) @
          [ClickGenerateRoute] @
          [OnComplete (or_empty (message m)) (or_false (requires_ui_update m)), ReaderCancel]"
        using p [of "store c"] placesRequested_result [of m "store c" d] n b by simp
      then show ?thesis by (simp only: deliver_click_complete [OF nr])
    next
      assume a: "status m = Some ''features_requested'' \<and> truthy_bool (show_features m)"
      then have "fst (snd (handleData (store c) d m)) =
          (if show_features_checked (page d) = Some False then [ChangeEvent ''show-features''] else []) @
          [ClickGenerateRoute] @
          [OnComplete (or_empty (message m)) (or_false (requires_ui_update m)), ReaderCancel]"
        using q [of "store c"] featuresRequested_result [of m "store c" d] n b by simp
      then show ?thesis by (simp only: deliver_click_complete [OF nr])
    qed
  qed
  from 1 2 3 show ?thesis by (intro conjI)
qed

theorem requested_event_dispatch_witness:
  "handleData empty_session (initial example_page)
     (no_fields\<lparr>status := Some ''places_requested'', message := Some ''Showing places'',
        show_places := Some True\<rparr>) =
     ((initial example_page)\<lparr>fullResponse := ''Showing places'',
        page := example_page\<lparr>show_places_checked := Some True\<rparr>\<rparr>,
      [ChangeEvent ''show-places'', ClickGenerateRoute,
       OnComplete ''Showing places'' False, ReaderCancel], True)
   \<and> handleData routed_session (initial example_page)
     (no_fields\<lparr>status := Some ''features_requested'', message := Some ''Showing features'',
        show_features := Some True, requires_ui_update := Some True\<rparr>) =
     ((initial example_page)\<lparr>fullResponse := ''Showing features'', requiresUpdate := True,
        page := example_page\<lparr>show_features_checked := Some True\<rparr>\<rparr>,
      [ChangeEvent ''show-features'',
       GetNaturalFeatures (CoordArray [(48137000, 11575000), (48208000, 16373000)]) False,
       OnComplete ''Showing features'' True, ReaderCancel], True)
   \<and> fst (snd (handleData
       (routed_session\<lparr>currentRoute := Some (example_route\<lparr>polyline_coords := Some (NotArray ''{}'')\<rparr>)\<rparr>)
       (initial example_page)
       (no_fields\<lparr>status := Some ''places_requested'', message := Some ''Showing places'',
          show_places := Some True\<rparr>))) =
     [ChangeEvent ''show-places'', GetPlaces (NotArray ''{}'') True,
      OnComplete ''Showing places'' False, ReaderCancel]
   \<and> foldl (deliver example_form) \<lparr>store = empty_session, bubble = fresh_bubble, flows = []\<rparr>
       (fst (snd (handleData empty_session (initial example_page)
         (no_fields\<lparr>status := Some ''places_requested'', message := Some ''Showing places'',
            show_places := Some True\<rparr>)))) =
     \<lparr>store = empty_session,
      bubble = \<lparr>textContent = ''Showing places'', cursor = False, errorClass = False\<rparr>,
      flows = [GenerateRouteFlow]\<rparr>"
proof -
  let ?m1 = "no_fields\<lparr>status := Some ''places_requested'', message := Some ''Showing places'',
        show_places := Some True\<rparr>"
  let ?m2 = "no_fields\<lparr>status := Some ''features_requested'', message := Some ''Showing features'',
        show_features := Some True, requires_ui_update := Some True\<rparr>"
  let ?c = "\<lparr>store = empty_session, bubble = fresh_bubble, flows = []\<rparr>"
  have h1: "status ?m1 = Some ''places_requested'' \<and> truthy_bool (show_places ?m1)"
    by (simp add: no_fields_def truthy_bool_def)
  have h2: "status ?m2 = Some ''features_requested'' \<and> truthy_bool (show_features ?m2)"
    by (simp add: no_fields_def truthy_bool_def)
  have a: "handleData empty_session (initial example_page) ?m1 =
     ((initial example_page)\<lparr>fullResponse := ''Showing places'',
        page := example_page\<lparr>show_places_checked := Some True\<rparr>\<rparr>,
      [ChangeEvent ''show-places'', ClickGenerateRoute,
       OnComplete ''Showing places'' False, ReaderCancel], True)"
    using requested_event_dispatch [of ?m1 empty_session "initial example_page" ?c example_form] h1
    by (simp add: no_fields_def or_empty_def or_false_def initial_def
        example_page_def empty_session_def routeCoords_def enable_def)
  have b: "handleData routed_session (initial example_page) ?m2 =
     ((initial example_page)\<lparr>fullResponse := ''Showing features'', requiresUpdate := True,
        page := example_page\<lparr>show_features_checked := Some True\<rparr>\<rparr>,
      [ChangeEvent ''show-features'',
       GetNaturalFeatures (CoordArray [(48137000, 11575000), (48208000, 16373000)]) False,
       OnComplete ''Showing features'' True, ReaderCancel], True)"
    using requested_event_dispatch [of ?m2 routed_session "initial example_page" ?c example_form] h2
    by (simp add: no_fields_def or_empty_def or_false_def initial_def
        example_page_def routed_session_def example_route_def routeCoords_def enable_def)
  have b2: "fst (snd (handleData
       (routed_session\<lparr>currentRoute := Some (example_route\<lparr>polyline_coords := Some (NotArray ''{}'')\<rparr>)\<rparr>)
       (initial example_page) ?m1)) =
     [ChangeEvent ''show-places'', GetPlaces (NotArray ''{}'') True,
      OnComplete ''Showing places'' False, ReaderCancel]"
    using requested_event_dispatch [of ?m1
        "routed_session\<lparr>currentRoute := Some (example_route\<lparr>polyline_coords := Some (NotArray ''{}'')\<rparr>)\<rparr>"
        "initial example_page" ?c example_form] h1
    by (simp add: no_fields_def or_empty_def or_false_def initial_def
        example_page_def routed_session_def example_route_def routeCoords_def enable_def)
  have h3: "routeCoords (store ?c) = None \<and> generate_route_btn (page (initial example_page))"
    by (simp add: routeCoords_def empty_session_def initial_def example_page_def)
  have h4: "formValid example_form"
    by (simp add: formValid_def example_form_def)
  from requested_event_dispatch [of ?m1 empty_session "initial example_page" ?c example_form]
    h1 h3
  have c0: "foldl (deliver example_form) ?c
       (fst (snd (handleData (store ?c) (initial example_page) ?m1))) =
     (if formValid example_form then
        ?c\<lparr>store := resetCachedData (store ?c),
          bubble := onComplete (or_empty (message ?m1)) (bubble ?c),
          flows := flows ?c @ [GenerateRouteFlow] @
            (if or_false (requires_ui_update ?m1) then [CheckForRouteUpdateFlow] else [])\<rparr>
      else
        ?c\<lparr>bubble := onComplete (or_empty (message ?m1)) (bubble ?c),
          flows := flows ?c @
            (if or_false (requires_ui_update ?m1) then [CheckForRouteUpdateFlow] else [])\<rparr>)"
    by blast
  have c: "foldl (deliver example_form) ?c
       (fst (snd (handleData empty_session (initial example_page) ?m1))) =
     \<lparr>store = empty_session,
      bubble = \<lparr>textContent = ''Showing places'', cursor = False, errorClass = False\<rparr>,
      flows = [GenerateRouteFlow]\<rparr>"
    using c0 h4
    by (simp add: no_fields_def or_empty_def or_false_def onComplete_def fresh_bubble_def
        resetCachedData_def empty_session_def)
  from a b b2 c show ?thesis by (intro conjI)
qed

subsection \<open>After a terminal event\<close>
















section \<open>The session state\<close>

subsection \<open>Reusing a cached result\<close>

lemma getPlaces_hit:
  "reusable (currentPlaces s) (placesRadiusKm f) False = Some c \<Longrightarrow>
   getPlaces w f s coords False = (s, [DisplayPlaces (data c), UpdatePlacesList (data c)])"
  by (simp add: getPlaces_def)

lemma getPlacesRepeated_hit:
  "reusable (currentPlaces s) (placesRadiusKm f) False = Some c \<Longrightarrow>
   fst (getPlacesRepeated f s calls) = s \<and>
   filter isPlacesRequest (snd (getPlacesRepeated f s calls)) = []"
proof (induction calls)
  case Nil
  show ?case by simp
next
  case (Cons call calls)
  obtain w coords where c: "call = (w, coords)" by (cases call)
  from Cons show ?case
    by (simp add: c getPlaces_hit case_prod_beta)
qed

lemma reusable_stored:
  "reusable (Some \<lparr>data = v, radius = r\<rparr>) r False = Some \<lparr>data = v, radius = r\<rparr>"
  by (simp add: reusable_def)

lemma getPlacesRepeated_once:
  "list_all (\<lambda>(w, coords). succeeded (placesRequest w coords (placesRadiusKm f))) calls \<Longrightarrow>
   length (filter isPlacesRequest (snd (getPlacesRepeated f s calls))) \<le> 1"
proof (cases calls)
  case Nil
  then show ?thesis by simp
next
  case (Cons call rest)
  assume ok: "list_all (\<lambda>(w, coords). succeeded (placesRequest w coords (placesRadiusKm f))) calls"
  obtain w coords where c: "call = (w, coords)" by (cases call)
  show ?thesis
  proof (cases "reusable (currentPlaces s) (placesRadiusKm f) False")
    case (Some cch)
    then show ?thesis using getPlacesRepeated_hit [of s f cch calls] by simp
  next
    case None
    from ok Cons c obtain places where pl: "placesRequest w coords (placesRadiusKm f) = Inr places"
      by (cases "placesRequest w coords (placesRadiusKm f)") (auto simp: succeeded_def)
    let ?s1 = "s\<lparr>currentPlaces := Some \<lparr>data = places, radius = placesRadiusKm f\<rparr>\<rparr>"
    have g: "getPlaces w f s coords False =
        (?s1, [PlacesRequested coords (placesRadiusKm f), DisplayPlaces places,
               UpdatePlacesList places, PlacesDataUpdated places])"
      using None pl by (simp add: getPlaces_def)
    have "reusable (currentPlaces ?s1) (placesRadiusKm f) False =
        Some \<lparr>data = places, radius = placesRadiusKm f\<rparr>"
      by (simp add: reusable_stored)
    from getPlacesRepeated_hit [OF this, of rest]
    show ?thesis using Cons c g by (simp add: case_prod_beta)
  qed
qed

lemma getNaturalFeatures_hit:
  "reusable (currentFeatures s) (featuresRadiusKm f) False = Some c \<Longrightarrow>
   getNaturalFeatures w f s coords False = (s, [DisplayFeatures (data c), UpdateFeaturesList (data c)])"
  by (simp add: getNaturalFeatures_def)

lemma getNaturalFeaturesRepeated_hit:
  "reusable (currentFeatures s) (featuresRadiusKm f) False = Some c \<Longrightarrow>
   fst (getNaturalFeaturesRepeated f s calls) = s \<and>
   filter isFeaturesRequest (snd (getNaturalFeaturesRepeated f s calls)) = []"
proof (induction calls)
  case Nil
  show ?case by simp
next
  case (Cons call calls)
  obtain w coords where c: "call = (w, coords)" by (cases call)
  from Cons show ?case
    by (simp add: c getNaturalFeatures_hit case_prod_beta)
qed

lemma getNaturalFeaturesRepeated_once:
  "list_all (\<lambda>(w, coords). succeeded (featuresRequest w coords (featuresRadiusKm f))) calls \<Longrightarrow>
   length (filter isFeaturesRequest (snd (getNaturalFeaturesRepeated f s calls))) \<le> 1"
proof (cases calls)
  case Nil
  then show ?thesis by simp
next
  case (Cons call rest)
  assume ok: "list_all (\<lambda>(w, coords). succeeded (featuresRequest w coords (featuresRadiusKm f))) calls"
  obtain w coords where c: "call = (w, coords)" by (cases call)
  show ?thesis
  proof (cases "reusable (currentFeatures s) (featuresRadiusKm f) False")
    case (Some cch)
    then show ?thesis using getNaturalFeaturesRepeated_hit [of s f cch calls] by simp
  next
    case None
    from ok Cons c obtain features where
      pl: "featuresRequest w coords (featuresRadiusKm f) = Inr features"
      by (cases "featuresRequest w coords (featuresRadiusKm f)") (auto simp: succeeded_def)
    let ?s1 = "s\<lparr>currentFeatures := Some \<lparr>data = features, radius = featuresRadiusKm f\<rparr>\<rparr>"
    have g: "getNaturalFeatures w f s coords False =
        (?s1, [FeaturesRequested coords (featuresRadiusKm f), DisplayFeatures features,
               UpdateFeaturesList features, FeaturesDataUpdated features])"
      using None pl by (simp add: getNaturalFeatures_def)
    have "reusable (currentFeatures ?s1) (featuresRadiusKm f) False =
        Some \<lparr>data = features, radius = featuresRadiusKm f\<rparr>"
      by (simp add: reusable_stored)
    from getNaturalFeaturesRepeated_hit [OF this, of rest]
    show ?thesis using Cons c g by (simp add: case_prod_beta)
  qed
qed

text \<open>
  C5, as the specification states it, fails: a request that fails stores nothing, so the
  next invocation at the same radius, the route unchanged, calls the fetcher again.
\<close>

theorem failed_fetch_counterexample:
  "length (filter isPlacesRequest (snd (getPlacesRepeated example_form empty_session
      [(failing_remote, CoordArray [(48137000, 11575000)]),
       (failing_remote, CoordArray [(48137000, 11575000)])]))) = 2"
  by (simp add: getPlaces_def reusable_def empty_session_def failing_remote_def example_remote_def)

text \<open>
  C5, amended. Without a forced refresh, a cached result whose radius is the selected one
  is displayed again, the session unchanged and the fetcher not called; otherwise the
  fetcher is called once and its result, if the request succeeds, is stored with that
  radius (a failed request stores nothing). So as long as the requests succeed, any
  number of invocations at a fixed radius call the fetcher at most once. The same holds
  for the natural features.
\<close>

theorem cached_result_reused:
  assumes "list_all (\<lambda>(w, coords). succeeded (placesRequest w coords (placesRadiusKm f))) calls"
    and "list_all (\<lambda>(w, coords). succeeded (featuresRequest w coords (featuresRadiusKm f))) calls"
  shows "length (filter isPlacesRequest (snd (getPlacesRepeated f s calls))) \<le> 1
    \<and> length (filter isFeaturesRequest (snd (getNaturalFeaturesRepeated f s calls))) \<le> 1
    \<and> (case reusable (currentPlaces s) (placesRadiusKm f) False of
         Some c \<Rightarrow> getPlaces w f s coords False = (s, [DisplayPlaces (data c), UpdatePlacesList (data c)])
       | None \<Rightarrow>
           filter isPlacesRequest (snd (getPlaces w f s coords False)) =
             [PlacesRequested coords (placesRadiusKm f)] \<and>
           fst (getPlaces w f s coords False) =
             (case placesRequest w coords (placesRadiusKm f) of
                Inr places \<Rightarrow> s\<lparr>currentPlaces := Some \<lparr>data = places, radius = placesRadiusKm f\<rparr>\<rparr>
              | Inl err \<Rightarrow> s))
    \<and> (case reusable (currentFeatures s) (featuresRadiusKm f) False of
         Some c \<Rightarrow>
           getNaturalFeatures w f s coords False =
             (s, [DisplayFeatures (data c), UpdateFeaturesList (data c)])
       | None \<Rightarrow>
           filter isFeaturesRequest (snd (getNaturalFeatures w f s coords False)) =
             [FeaturesRequested coords (featuresRadiusKm f)] \<and>
           fst (getNaturalFeatures w f s coords False) =
             (case featuresRequest w coords (featuresRadiusKm f) of
                Inr features \<Rightarrow>
                  s\<lparr>currentFeatures := Some \<lparr>data = features, radius = featuresRadiusKm f\<rparr>\<rparr>
              | Inl err \<Rightarrow> s))"
proof -
  have 1: "length (filter isPlacesRequest (snd (getPlacesRepeated f s calls))) \<le> 1"
    using assms(1) by (rule getPlacesRepeated_once)
  have 2: "length (filter isFeaturesRequest (snd (getNaturalFeaturesRepeated f s calls))) \<le> 1"
    using assms(2) by (rule getNaturalFeaturesRepeated_once)
  have 3: "(case reusable (currentPlaces s) (placesRadiusKm f) False of
         Some c \<Rightarrow> getPlaces w f s coords False = (s, [DisplayPlaces (data c), UpdatePlacesList (data c)])
       | None \<Rightarrow>
           filter isPlacesRequest (snd (getPlaces w f s coords False)) =
             [PlacesRequested coords (placesRadiusKm f)] \<and>
           fst (getPlaces w f s coords False) =
             (case placesRequest w coords (placesRadiusKm f) of
                Inr places \<Rightarrow> s\<lparr>currentPlaces := Some \<lparr>data = places, radius = placesRadiusKm f\<rparr>\<rparr>
              | Inl err \<Rightarrow> s))"
    by (simp add: getPlaces_def split: option.splits sum.splits)
  have 4: "(case reusable (currentFeatures s) (featuresRadiusKm f) False of
         Some c \<Rightarrow>
           getNaturalFeatures w f s coords False =
             (s, [DisplayFeatures (data c), UpdateFeaturesList (data c)])
       | None \<Rightarrow>
           filter isFeaturesRequest (snd (getNaturalFeatures w f s coords False)) =
             [FeaturesRequested coords (featuresRadiusKm f)] \<and>
           fst (getNaturalFeatures w f s coords False) =
             (case featuresRequest w coords (featuresRadiusKm f) of
                Inr features \<Rightarrow>
                  s\<lparr>currentFeatures := Some \<lparr>data = features, radius = featuresRadiusKm f\<rparr>\<rparr>
              | Inl err \<Rightarrow> s))"
    by (simp add: getNaturalFeatures_def split: option.splits sum.splits)
  from 1 2 3 4 show ?thesis by blast
qed

theorem cached_result_reused_witness:
  "list_all (\<lambda>(w, coords). succeeded (placesRequest w coords (placesRadiusKm example_form)))
     [(example_remote, CoordArray [(48137000, 11575000)]),
      (example_remote, CoordArray [(48137000, 11575000)]),
      (example_remote, CoordArray [(48137000, 11575000)])]
   \<and> list_all (\<lambda>(w, coords). succeeded (featuresRequest w coords (featuresRadiusKm example_form)))
     [(example_remote, CoordArray [(48137000, 11575000)]),
      (example_remote, CoordArray [(48137000, 11575000)]),
      (example_remote, CoordArray [(48137000, 11575000)])]
   \<and> length (filter isPlacesRequest (snd (getPlacesRepeated example_form empty_session
     [(example_remote, CoordArray [(48137000, 11575000)]),
      (example_remote, CoordArray [(48137000, 11575000)]),
      (example_remote, CoordArray [(48137000, 11575000)])]))) = 1
   \<and> length (filter isFeaturesRequest (snd (getNaturalFeaturesRepeated example_form routed_session
     [(example_remote, CoordArray [(48137000, 11575000)]),
      (example_remote, CoordArray [(48137000, 11575000)]),
      (example_remote, CoordArray [(48137000, 11575000)])]))) = 0
   \<and> getNaturalFeatures example_remote example_form routed_session (CoordArray [(48137000, 11575000)]) False =
     (routed_session, [DisplayFeatures [], UpdateFeaturesList []])
   \<and> fst (getPlaces example_remote example_form routed_session (CoordArray [(48137000, 11575000)]) False) =
     routed_session\<lparr>currentPlaces :=
       Some \<lparr>data = [(''Cafe'', ''cafe'', (48150000, 12000000))], radius = ''5''\<rparr>\<rparr>"
proof -
  let ?calls = "[(example_remote, CoordArray [(48137000, 11575000)]),
      (example_remote, CoordArray [(48137000, 11575000)]),
      (example_remote, CoordArray [(48137000, 11575000)])]"
  have h1: "list_all (\<lambda>(w, coords). succeeded (placesRequest w coords (placesRadiusKm example_form))) ?calls"
    by (simp add: succeeded_def example_remote_def)
  have h2: "list_all (\<lambda>(w, coords). succeeded (featuresRequest w coords (featuresRadiusKm example_form))) ?calls"
    by (simp add: succeeded_def example_remote_def)
  have a: "length (filter isPlacesRequest (snd (getPlacesRepeated example_form empty_session ?calls))) = 1"
    by (simp add: getPlaces_def reusable_def empty_session_def example_remote_def example_form_def)
  have b: "length (filter isFeaturesRequest
      (snd (getNaturalFeaturesRepeated example_form routed_session ?calls))) = 0"
    by (simp add: getNaturalFeatures_def reusable_def routed_session_def example_form_def)
  from cached_result_reused [OF h1 h2, of routed_session example_remote "CoordArray [(48137000, 11575000)]"]
  show ?thesis using h1 h2 a b
    by (simp add: reusable_def routed_session_def example_form_def example_remote_def)
qed

subsection \<open>A new route\<close>

lemma fetchRoute_clears:
  "currentPlaces (fst (fetchRoute w f s)) = None \<and> currentFeatures (fst (fetchRoute w f s)) = None"
  by (simp add: fetchRoute_def resetCachedData_def Let_def split: option.splits sum.splits coords_value.splits)

lemma generateRoute_fetches_places:
  assumes "reusableRoute f s = None" and "snd (snd (fetchRoute w f s)) = Inr (routeData, coords)"
    and "showPlaces f"
  shows "filter isPlacesRequest (snd (generateRoute w f s)) = [PlacesRequested (CoordArray coords) (placesRadiusKm f)]"
proof -
  obtain s1 e1 where fr: "fetchRoute w f s = (s1, e1, Inr (routeData, coords))"
    using assms(2) by (cases "fetchRoute w f s") auto
  have cl: "currentPlaces s1 = None" using fetchRoute_clears [of w f s] fr by simp
  have e1: "filter isPlacesRequest e1 = []"
    using fr by (auto simp: fetchRoute_def Let_def split: option.splits sum.splits coords_value.splits)
  have d: "filter isPlacesRequest (displayRouteData routeData) = []"
    by (simp add: displayRouteData_def split: option.splits)
  obtain s2 e2 where gp: "getPlaces w f s1 (CoordArray coords) False = (s2, e2)"
    by (cases "getPlaces w f s1 (CoordArray coords) False") auto
  have e2: "filter isPlacesRequest e2 = [PlacesRequested (CoordArray coords) (placesRadiusKm f)]"
    using gp cl by (auto simp: getPlaces_def reusable_def split: sum.splits)
  have e3: "filter isPlacesRequest (snd (getNaturalFeatures w f s2 (CoordArray coords) False)) = []"
    by (simp add: getNaturalFeatures_def split: option.splits sum.splits coords_value.splits)
  show ?thesis
    using assms(1,3) fr gp e1 d e2 e3
    by (simp add: generateRoute_def Let_def case_prod_beta)
qed

text \<open>
  C6. The branch of \<open>generateRoute\<close> that fetches a new route, the only place where the
  current route is assigned, always leaves the cached places and features absent. So
  when two runs each fetch a new route, with the places checkbox on and the same
  radius, the places fetcher is called in both: whatever the first run cached is not
  reused by the second.
\<close>

theorem new_route_clears_caches:
  assumes "reusableRoute f1 s0 = None" and "snd (snd (fetchRoute w1 f1 s0)) = Inr (route1, coords1)"
    and "showPlaces f1" and "generateRoute w1 f1 s0 = (s1, es1)"
    and "reusableRoute f2 s1 = None" and "snd (snd (fetchRoute w2 f2 s1)) = Inr (route2, coords2)"
    and "showPlaces f2" and "generateRoute w2 f2 s1 = (s2, es2)"
    and "placesRadiusKm f2 = placesRadiusKm f1"
  shows "currentPlaces (fst (fetchRoute w f s)) = None \<and> currentFeatures (fst (fetchRoute w f s)) = None
    \<and> currentRoute (fst (fetchRoute w1 f1 s0)) = Some route1
    \<and> filter isPlacesRequest (es1 @ es2) =
        [PlacesRequested (CoordArray coords1) (placesRadiusKm f1), PlacesRequested (CoordArray coords2) (placesRadiusKm f1)]"
proof -
  have r: "currentRoute (fst (fetchRoute w1 f1 s0)) = Some route1"
    using assms(2) by (auto simp: fetchRoute_def Let_def split: option.splits sum.splits coords_value.splits)
  have 1: "filter isPlacesRequest es1 = [PlacesRequested (CoordArray coords1) (placesRadiusKm f1)]"
    using generateRoute_fetches_places [OF assms(1,2,3)] assms(4) by simp
  have 2: "filter isPlacesRequest es2 = [PlacesRequested (CoordArray coords2) (placesRadiusKm f1)]"
    using generateRoute_fetches_places [OF assms(5,6,7)] assms(8,9) by simp
  from r 1 2 fetchRoute_clears [of w f s] show ?thesis by simp
qed

theorem new_route_clears_caches_witness:
  "reusableRoute example_form empty_session = None
   \<and> snd (snd (fetchRoute example_remote example_form empty_session)) =
       Inr (example_route, [(48137000, 11575000), (48208000, 16373000)])
   \<and> showPlaces example_form
   \<and> reusableRoute (example_form\<lparr>destinationInput := ''Salzburg''\<rparr>)
       (fst (generateRoute example_remote example_form empty_session)) = None
   \<and> snd (snd (fetchRoute example_remote (example_form\<lparr>destinationInput := ''Salzburg''\<rparr>)
       (fst (generateRoute example_remote example_form empty_session)))) =
       Inr (example_route\<lparr>polyline_coords := Some (CoordArray [(48137000, 11575000), (47811000, 13055000)])\<rparr>,
            [(48137000, 11575000), (47811000, 13055000)])
   \<and> currentPlaces (fst (generateRoute example_remote example_form empty_session)) =
       Some \<lparr>data = [(''Cafe'', ''cafe'', (48150000, 12000000))], radius = ''5''\<rparr>
   \<and> filter isPlacesRequest
       (snd (generateRoute example_remote example_form empty_session) @
        snd (generateRoute example_remote (example_form\<lparr>destinationInput := ''Salzburg''\<rparr>)
          (fst (generateRoute example_remote example_form empty_session)))) =
       [PlacesRequested (CoordArray [(48137000, 11575000), (48208000, 16373000)]) ''5'',
        PlacesRequested (CoordArray [(48137000, 11575000), (47811000, 13055000)]) ''5'']"
proof -
  let ?f2 = "example_form\<lparr>destinationInput := ''Salzburg''\<rparr>"
  let ?run1 = "generateRoute example_remote example_form empty_session"
  have h1: "reusableRoute example_form empty_session = None"
    by code_simp
  have h2: "snd (snd (fetchRoute example_remote example_form empty_session)) =
       Inr (example_route, [(48137000, 11575000), (48208000, 16373000)])"
    by code_simp
  have h3: "showPlaces example_form" by (simp add: example_form_def)
  have s1: "fst ?run1 =
      \<lparr>currentRoute = Some example_route,
       currentPlaces = Some \<lparr>data = [(''Cafe'', ''cafe'', (48150000, 12000000))], radius = ''5''\<rparr>,
       currentFeatures = None\<rparr>"
    by code_simp
  have h4: "generateRoute example_remote example_form empty_session = (fst ?run1, snd ?run1)"
    by simp
  have h5: "reusableRoute ?f2 (fst ?run1) = None"
    by code_simp
  have h6: "snd (snd (fetchRoute example_remote ?f2 (fst ?run1))) =
       Inr (example_route\<lparr>polyline_coords := Some (CoordArray [(48137000, 11575000), (47811000, 13055000)])\<rparr>,
            [(48137000, 11575000), (47811000, 13055000)])"
    by code_simp
  have h7: "showPlaces ?f2" by (simp add: example_form_def)
  have h8: "generateRoute example_remote ?f2 (fst ?run1) =
      (fst (generateRoute example_remote ?f2 (fst ?run1)),
       snd (generateRoute example_remote ?f2 (fst ?run1)))"
    by simp
  have h9: "placesRadiusKm ?f2 = placesRadiusKm example_form" by simp
  have r: "placesRadiusKm example_form = ''5''" by (simp add: example_form_def)
  from new_route_clears_caches [OF h1 h2 h3 h4 h5 h6 h7 h8 h9]
  show ?thesis using h1 h2 h3 h5 h6 by (simp add: r s1)
qed

section \<open>An error event in the chat\<close>

lemma silent_no_error: "silent es \<Longrightarrow> \<not> list_ex isError es"
  by (induction es rule: silent.induct) auto

lemma silent_append: "silent xs \<Longrightarrow> silent (xs @ ys) = silent ys"
  by (induction xs rule: silent.induct) auto

lemma errorEnding_append: "silent xs \<Longrightarrow> errorEnding (xs @ ys) = errorEnding ys"
  by (induction xs rule: silent.induct) auto

lemma routeGenerated_errorOrNone: "errorOrNone (snd (routeGenerated d m))"
  by (simp add: errorOrNone_def routeGenerated_def finish_def Let_def)

lemma placesRequested_errorOrNone: "errorOrNone (snd (placesRequested s d m))"
  by (simp add: errorOrNone_def placesRequested_def finish_def clickGenerate_def Let_def
      split: option.splits bool.splits prod.splits)

lemma featuresRequested_errorOrNone: "errorOrNone (snd (featuresRequested s d m))"
  by (simp add: errorOrNone_def featuresRequested_def finish_def clickGenerate_def Let_def
      split: option.splits bool.splits prod.splits)

lemma waypointAdded_errorOrNone: "errorOrNone (snd (waypointAdded d m))"
  by (simp add: errorOrNone_def waypointAdded_def finish_def clickGenerate_def Let_def
      split: option.splits)

lemma streamFields_errorOrNone: "errorOrNone (snd (streamFields d m))"
  by (simp add: errorOrNone_def streamFields_def Let_def)

lemma handleData_errorOrNone: "errorOrNone (snd (handleData s d m))"
  by (simp add: handleData_def routeGenerated_errorOrNone placesRequested_errorOrNone
      featuresRequested_errorOrNone waypointAdded_errorOrNone streamFields_errorOrNone)

lemma handleLine_errorOrNone: "errorOrNone (snd (handleLine P s d l))"
  by (simp add: handleLine_def handleData_errorOrNone split: option.splits)
     (simp add: errorOrNone_def)

lemma handleLines_errorOrNone: "errorOrNone (snd (handleLines P s d ls))"
proof (induction ls arbitrary: d)
  case Nil
  show ?case by (simp add: errorOrNone_def)
next
  case (Cons l ls)
  obtain d1 e1 r where h: "handleLine P s d l = (d1, e1, r)"
    by (cases "handleLine P s d l") auto
  have s1: "errorOrNone (e1, r)" using handleLine_errorOrNone [of P s d l] h by simp
  show ?case
  proof (cases r)
    case True
    with h s1 show ?thesis by simp
  next
    case False
    obtain d2 e2 r2 where h2: "handleLines P s d1 ls = (d2, e2, r2)"
      by (cases "handleLines P s d1 ls") auto
    have s2: "errorOrNone (e2, r2)" using Cons [of d1] h2 by simp
    from False s1 have q: "silent e1" by (simp add: errorOrNone_def)
    have "errorOrNone (e1 @ e2, r2)"
      using s2 q silent_no_error [OF q]
      by (cases r2) (auto simp: errorOrNone_def errorEnding_append silent_append)
    with False h h2 show ?thesis by simp
  qed
qed

lemma decodeMessages_errorEnding:
  "list_ex isError (decodeMessages P s d ls ending) \<Longrightarrow> errorEnding (decodeMessages P s d ls ending)"
proof -
  assume a: "list_ex isError (decodeMessages P s d ls ending)"
  obtain d1 e1 r where h: "handleLines P s d ls = (d1, e1, r)"
    by (cases "handleLines P s d ls") auto
  have eo: "errorOrNone (e1, r)" using handleLines_errorOrNone [of P s d ls] h by simp
  show ?thesis
  proof (cases r)
    case True
    with a h eo show ?thesis by (auto simp: decodeMessages_def errorOrNone_def)
  next
    case False
    with eo have q: "silent e1" by (simp add: errorOrNone_def)
    from a False h silent_no_error [OF q] show ?thesis
      by (cases ending) (auto simp: decodeMessages_def streamEnd_def errorEnding_append [OF q])
  qed
qed

lemma deliver_errorEnding:
  "errorEnding es \<Longrightarrow>
   store (foldl (deliver f) c es) = store c \<and> flows (foldl (deliver f) c es) = flows c \<and>
   textContent (bubble (foldl (deliver f) c es)) =
     ''Sorry, there was an error processing your request. Please try again.'' \<and>
   errorClass (bubble (foldl (deliver f) c es)) \<and> \<not> cursor (bubble (foldl (deliver f) c es))"
  by (induction es arbitrary: c rule: errorEnding.induct) (auto simp: onError_def)

text \<open>
  C9. When a run of the stream reports an error event (from a message or from a failed
  read), the bubble of the pending message shows the error text and has the error
  class, and the session is what it was before the stream: route, cached places and
  cached features are unchanged and no flow that could change them was started.
\<close>

theorem error_event_leaves_store:
  assumes "list_ex isError (streamChatMessage P (store c) pg fragments ending)"
  shows "store (foldl (deliver f) c (streamChatMessage P (store c) pg fragments ending)) = store c
    \<and> flows (foldl (deliver f) c (streamChatMessage P (store c) pg fragments ending)) = flows c
    \<and> textContent (bubble (foldl (deliver f) c (streamChatMessage P (store c) pg fragments ending))) =
        ''Sorry, there was an error processing your request. Please try again.''
    \<and> errorClass (bubble (foldl (deliver f) c (streamChatMessage P (store c) pg fragments ending)))"
proof -
  have "errorEnding (streamChatMessage P (store c) pg fragments ending)"
    using assms unfolding stream_as_lines by (rule decodeMessages_errorEnding)
  from deliver_errorEnding [OF this, of f c] show ?thesis by simp
qed

theorem error_event_leaves_store_witness:
  \<open>list_ex isError (streamChatMessage stream_parse
      (store \<lparr>store = routed_session, bubble = fresh_bubble, flows = []\<rparr>) example_page
      [''data: {"chunk":"Hi"}\<newline>\<newline>data: {"error":"backend failed"}\<newline>\<newline>data: {"chunk":" there"}\<newline>\<newline>'']
      None)
   \<and> streamChatMessage stream_parse routed_session example_page
      [''data: {"chunk":"Hi"}\<newline>\<newline>data: {"error":"backend failed"}\<newline>\<newline>data: {"chunk":" there"}\<newline>\<newline>'']
      None = [OnChunk ''Hi'', OnError ''backend failed'', ReaderCancel]
   \<and> foldl (deliver example_form) \<lparr>store = routed_session, bubble = fresh_bubble, flows = []\<rparr>
      (streamChatMessage stream_parse routed_session example_page
        [''data: {"chunk":"Hi"}\<newline>\<newline>data: {"error":"backend failed"}\<newline>\<newline>data: {"chunk":" there"}\<newline>\<newline>'']
        None) =
     \<lparr>store = routed_session,
      bubble = \<lparr>textContent = ''Sorry, there was an error processing your request. Please try again.'',
                cursor = False, errorClass = True\<rparr>,
      flows = []\<rparr>\<close>
proof -
  let ?f = \<open>[''data: {"chunk":"Hi"}\<newline>\<newline>data: {"error":"backend failed"}\<newline>\<newline>data: {"chunk":" there"}\<newline>\<newline>'']\<close>
  let ?c = "\<lparr>store = routed_session, bubble = fresh_bubble, flows = []\<rparr>"
  have ev: "streamChatMessage stream_parse routed_session example_page ?f None =
      [OnChunk ''Hi'', OnError ''backend failed'', ReaderCancel]"
    by (simp add: streamChatMessage_def initial_def handleLine_def handleData_def
        streamFields_def stream_parse_def no_fields_def truthy_str_def truthy_bool_def
        or_empty_def or_false_def)
  have h: "list_ex isError (streamChatMessage stream_parse (store ?c) example_page ?f None)"
    by (simp add: ev)
  from error_event_leaves_store [OF h, of example_form] show ?thesis
    using h by (simp add: ev onChunk_def onError_def fresh_bubble_def)
qed

section \<open>Geocoding an address\<close>

text \<open>
  C10, as stated, fails in two ways: with a display element named, a 2xx response whose
  body has no numeric coordinates makes the rendering throw, and the function returns
  \<open>null\<close>, not the parsed body; and when the named element is not in the document the
  \<open>catch\<close> block throws itself, so the promise is rejected.
\<close>

theorem geocode_counterexample:
  "snd (geocodeAddress
      (\<lambda>a. Response True (Inr \<lparr>lat = None, lng = None, geo_error = Some ''Address not found''\<rparr>))
      index_document ''Atlantis'' (Some ''origin-coords'')) = Fulfilled None
   \<and> snd (geocodeAddress
      (\<lambda>a. Response True (Inr \<lparr>lat = Some 48137000, lng = Some 11575000, geo_error = None\<rparr>))
      index_document ''Munich'' (Some ''waypoint-coords'')) = Rejected typeError"
  by (simp add: geocodeAddress_def catchBlock_def index_document_def truthy_str_def or_empty_def)

text \<open>
  C10, amended. When the display element, if one is named, exists, \<open>geocodeAddress\<close>
  never rejects: it returns the parsed body when the response is 2xx and the result
  can be rendered (no display element is named, or the body has numeric coordinates),
  and \<open>null\<close> in every other case: response not 2xx, request or parsing failed, or
  rendering failed.
\<close>

theorem geocode_never_rejects:
  assumes "displayable document displayElementId"
  shows "snd (geocodeAddress fetch document address displayElementId) =
     (case fetch address of
        NetworkError msg \<Rightarrow> Fulfilled None
      | Response ok body \<Rightarrow>
          (case body of
             Inl msg \<Rightarrow> Fulfilled None
           | Inr d \<Rightarrow> if ok \<and> renders displayElementId d then Fulfilled (Some d)
                       else Fulfilled None))"
  using assms
  by (auto simp: geocodeAddress_def catchBlock_def displayable_def renders_def
      split: http.splits sum.splits option.splits if_splits)

theorem geocode_never_rejects_witness:
  "displayable index_document (Some ''origin-coords'')
   \<and> snd (geocodeAddress
      (\<lambda>a. if a = ''Munich''
            then Response True (Inr \<lparr>lat = Some 48137000, lng = Some 11575000, geo_error = None\<rparr>)
            else Response False (Inr \<lparr>lat = None, lng = None, geo_error = Some ''Address not found''\<rparr>))
      index_document ''Munich'' (Some ''origin-coords'')) =
     Fulfilled (Some \<lparr>lat = Some 48137000, lng = Some 11575000, geo_error = None\<rparr>)
   \<and> snd (geocodeAddress
      (\<lambda>a. if a = ''Munich''
            then Response True (Inr \<lparr>lat = Some 48137000, lng = Some 11575000, geo_error = None\<rparr>)
            else Response False (Inr \<lparr>lat = None, lng = None, geo_error = Some ''Address not found''\<rparr>))
      index_document ''Atlantis'' (Some ''origin-coords'')) = Fulfilled None
   \<and> snd (geocodeAddress (\<lambda>a. NetworkError ''Failed to fetch'')
      index_document ''Munich'' (Some ''origin-coords'')) = Fulfilled None"
proof -
  let ?fetch = "\<lambda>a. if a = ''Munich''
            then Response True (Inr \<lparr>lat = Some 48137000, lng = Some 11575000, geo_error = None\<rparr>)
            else Response False (Inr \<lparr>lat = None, lng = None, geo_error = Some ''Address not found''\<rparr>)"
  have h: "displayable index_document (Some ''origin-coords'')"
    by (simp add: displayable_def index_document_def truthy_str_def or_empty_def)
  from geocode_never_rejects [OF h, of ?fetch "''Munich''"]
    geocode_never_rejects [OF h, of ?fetch "''Atlantis''"]
    geocode_never_rejects [OF h, of "\<lambda>a. NetworkError ''Failed to fetch''" "''Munich''"]
  show ?thesis using h by (simp add: renders_def truthy_str_def)
qed

end
